theory Spec2Isabelle
  imports Complex_Main
begin

section \<open>Numbers\<close>

text \<open>
  JavaScript numbers are modelled as real numbers: rounding, \<open>NaN\<close> and the infinities
  of IEEE arithmetic are abstracted away.  Where the source relies on \<open>Infinity\<close>
  (the initial nearest-hostile distance) the model uses an option, and where it
  divides, the divisor is shown to be non-zero or the case is written out.
\<close>

definition hypot :: "real \<Rightarrow> real \<Rightarrow> real" where
  \<comment> \<open>\<open>Math.hypot(a, b)\<close>\<close>
  "hypot a b = sqrt (a * a + b * b)"

definition js_rem :: "real \<Rightarrow> real \<Rightarrow> real" where
  \<comment> \<open>\<open>a % b\<close>: the remainder takes the sign of the dividend (truncated division)\<close>
  "js_rem a b =
     (let q = a / b
      in a - b * of_int (if 0 \<le> q then \<lfloor>q\<rfloor> else \<lceil>q\<rceil>))"

definition atan2 :: "real \<Rightarrow> real \<Rightarrow> real" where
  \<comment> \<open>\<open>Math.atan2(y, x)\<close>, in \<open>(-\<pi>, \<pi>]\<close>\<close>
  "atan2 y x =
     (if 0 < x then arctan (y / x)
      else if x < 0 \<and> 0 \<le> y then arctan (y / x) + pi
      else if x < 0 then arctan (y / x) - pi
      else if 0 < y then pi / 2
      else if y < 0 then - (pi / 2)
      else 0)"

definition toUpperCase :: "string \<Rightarrow> string" where
  "toUpperCase str =
     map (\<lambda>c. let n = (of_char c :: nat)
               in if 97 \<le> n \<and> n \<le> 122 then char_of (n - 32) else c) str"

section \<open>Data model (state.js)\<close>

datatype error = TypeError

datatype faction = Friendly | Neutral | Hostile

datatype ai_state = Patrol | Approach | Attack | Flee

datatype alert = Normal | Yellow | Red

datatype msg_type = NormalMsg | AlertMsg | HailMsg | InfoMsg

record subsystem =
  hp :: real
  maxHp :: real
  sys_power :: real

record subsystems =
  engines :: subsystem
  weapons :: subsystem
  shields :: subsystem
  sensors :: subsystem

definition createSubsystems :: subsystems where
  "createSubsystems =
     \<lparr>engines = \<lparr>hp = 100, maxHp = 100, sys_power = 50\<rparr>,
      weapons = \<lparr>hp = 100, maxHp = 100, sys_power = 50\<rparr>,
      shields = \<lparr>hp = 100, maxHp = 100, sys_power = 50\<rparr>,
      sensors = \<lparr>hp = 100, maxHp = 100, sys_power = 50\<rparr>\<rparr>"

text \<open>
  The property lookup \<open>subsystems[systemName]\<close> finds one of the four subsystem
  records, or a member that the object inherits from \<open>Object.prototype\<close> (a function,
  or the prototype itself for \<open>__proto__\<close>), or nothing.  An inherited member is
  truthy and lies outside every ship: writing \<open>hp\<close> or \<open>power\<close> to it changes no
  ship, and its \<open>hp\<close> and \<open>maxHp\<close> are \<open>undefined\<close> or \<open>NaN\<close>, so that
  \<open>system.hp >= system.maxHp\<close> is false.
\<close>

datatype property = Own subsystem | Inherited | Undefined

definition objectPrototypeNames :: "string list" where
  "objectPrototypeNames =
     [''constructor'', ''__proto__'', ''hasOwnProperty'', ''isPrototypeOf'',
      ''propertyIsEnumerable'', ''toLocaleString'', ''toString'', ''valueOf'',
      ''__defineGetter__'', ''__defineSetter__'', ''__lookupGetter__'', ''__lookupSetter__'']"

definition get_system :: "subsystems \<Rightarrow> string \<Rightarrow> property" where
  \<comment> \<open>\<open>subsystems[systemName]\<close>\<close>
  "get_system subs systemName =
     (if systemName = ''engines'' then Own (engines subs)
      else if systemName = ''weapons'' then Own (weapons subs)
      else if systemName = ''shields'' then Own (shields subs)
      else if systemName = ''sensors'' then Own (sensors subs)
      else if systemName \<in> set objectPrototypeNames then Inherited
      else Undefined)"

definition set_system :: "string \<Rightarrow> subsystem \<Rightarrow> subsystems \<Rightarrow> subsystems" where
  \<comment> \<open>writing a field of the object \<open>subsystems[systemName]\<close>\<close>
  "set_system systemName sys subs =
     (if systemName = ''engines'' then subs\<lparr>engines := sys\<rparr>
      else if systemName = ''weapons'' then subs\<lparr>weapons := sys\<rparr>
      else if systemName = ''shields'' then subs\<lparr>shields := sys\<rparr>
      else if systemName = ''sensors'' then subs\<lparr>sensors := sys\<rparr>
      else subs)"

text \<open>
  A ship object.  The fields \<open>id\<close>, \<open>x\<close>, \<open>y\<close>, \<open>hull\<close> and \<open>size\<close> carry the prefix
  \<open>ship_\<close>; \<open>power\<close> of a subsystem is \<open>sys_power\<close>.  The display-only fields
  \<open>type\<close> and \<open>scanned\<close> are read by no function modelled here and are left out.
\<close>

record ship =
  ship_id :: string
  name :: string
  faction :: faction
  ship_x :: real
  ship_y :: real
  heading :: real
  velocity :: real
  maxVelocity :: real
  turnRate :: real
  subsystems :: subsystems
  ship_hull :: real
  maxHull :: real
  shieldStrength :: real
  maxShieldStrength :: real
  aiState :: ai_state
  patrolPoints :: "(real \<times> real) list"
  patrolIndex :: nat
  target :: "string option"
  ship_size :: real

record projectile =
  proj_type :: string
  proj_x :: real
  proj_y :: real
  proj_heading :: real
  proj_velocity :: real
  damage :: real
  sourceId :: string
  targetId :: "string option"
  lifetime :: real
  proj_size :: real

record beam =
  beam_x1 :: real
  beam_y1 :: real
  beam_x2 :: real
  beam_y2 :: real
  beam_lifetime :: real

text \<open>
  The random \<open>id\<close> of a projectile and of a comms message is left out, and so are
  the waypoint, the pause flag and the listener table of the game state: no function
  modelled here reads them.
\<close>

record comms_msg =
  sender :: string
  message :: string
  msg_type :: msg_type
  timestamp :: nat
  msg_read :: bool

text \<open>
  Ship objects are mutated in place and shared between the ship list, the player
  slot and local variables, so they live in a store indexed by references.
\<close>

type_synonym ref = nat

text \<open>
  \<open>emit\<close> calls the registered listeners synchronously.  The listeners belong to
  the user interface; the model records each emitted event, and each sound cue sent
  to the audio manager, in a trace.
\<close>

datatype event =
    ShipDestroyed ref
  | ShipDamaged ref real
  | PlayerDestroyed ref
  | CommsMessage comms_msg
  | AlertChanged alert
  | WeaponFired string "ref option"
  | RepairStarted string
  | PowerChanged string real
  | Sound string

record game_state =
  store :: "ref \<Rightarrow> ship"
  playerShip :: ref
  ships :: "ref list"
  projectiles :: "projectile list"
  phaserBeams :: "beam list"
  commsLog :: "comms_msg list"
  currentTarget :: "string option"
  alertLevel :: alert
  gameTime :: nat
  repairCooldowns :: "string \<Rightarrow> real option"
  events :: "event list"
  rand :: "nat \<Rightarrow> real"
  randPos :: nat

text \<open>
  \<open>Math.random()\<close> reads the next value of a stream held in the state; every value
  of a well-formed stream lies in \<open>[0, 1)\<close>.
\<close>

definition random :: "game_state \<Rightarrow> real \<times> game_state" where
  "random s = (rand s (randPos s), s\<lparr>randPos := Suc (randPos s)\<rparr>)"

definition rand_ok :: "game_state \<Rightarrow> bool" where
  "rand_ok s = (\<forall>n. 0 \<le> rand s n \<and> rand s n < 1)"

definition emit :: "event \<Rightarrow> game_state \<Rightarrow> game_state" where
  "emit e s = s\<lparr>events := events s @ [e]\<rparr>"

definition play :: "string \<Rightarrow> game_state \<Rightarrow> game_state" where
  \<comment> \<open>a call \<open>audio.playX()\<close>\<close>
  "play cue s = emit (Sound cue) s"

definition addCommsMessage :: "string \<Rightarrow> string \<Rightarrow> msg_type \<Rightarrow> game_state \<Rightarrow> game_state" where
  "addCommsMessage sndr text ty s =
     (let msg = \<lparr>sender = sndr, message = text, msg_type = ty,
                 timestamp = gameTime s, msg_read = False\<rparr>;
          log1 = msg # commsLog s;
          log2 = (if length log1 > 50 then butlast log1 else log1)
      in emit (CommsMessage msg) (s\<lparr>commsLog := log2\<rparr>))"

fun findIndex :: "('a \<Rightarrow> bool) \<Rightarrow> 'a list \<Rightarrow> nat option" where
  "findIndex P [] = None"
| "findIndex P (x # xs) = (if P x then Some 0 else map_option Suc (findIndex P xs))"

definition removeShip :: "string \<Rightarrow> game_state \<Rightarrow> game_state" where
  "removeShip shipId s =
     (case findIndex (\<lambda>r. ship_id (store s r) = shipId) (ships s) of
        None \<Rightarrow> s
      | Some index \<Rightarrow>
          (let shp = ships s ! index;
               s1 = s\<lparr>ships := take index (ships s) @ drop (Suc index) (ships s)\<rparr>;
               s2 = emit (ShipDestroyed shp) s1
           in if currentTarget s2 = Some shipId then s2\<lparr>currentTarget := None\<rparr> else s2))"

definition getShip :: "string option \<Rightarrow> game_state \<Rightarrow> ref option" where
  \<comment> \<open>the argument may be \<open>null\<close>; no ship id is \<open>null\<close>\<close>
  "getShip shipId s =
     (case shipId of
        None \<Rightarrow> None
      | Some i \<Rightarrow>
          if i = ''player'' then Some (playerShip s)
          else find (\<lambda>r. ship_id (store s r) = i) (ships s))"

definition createShip :: "string \<Rightarrow> ship" where
  \<comment> \<open>\<open>createShip({id: i})\<close>: every other field takes its default.  A configuration
      with more fields is a record update of this value.\<close>
  "createShip i =
     \<lparr>ship_id = i, name = ''Unknown Vessel'', faction = Neutral, ship_x = 0, ship_y = 0,
      heading = 0, velocity = 0, maxVelocity = 5, turnRate = 3,
      subsystems = createSubsystems, ship_hull = 100, maxHull = 100,
      shieldStrength = 100, maxShieldStrength = 100, aiState = Patrol,
      patrolPoints = [], patrolIndex = 0, target = None, ship_size = 20\<rparr>"

definition js_or :: "string option \<Rightarrow> string option \<Rightarrow> string option" where
  \<comment> \<open>\<open>a || b\<close> on values that are a string or \<open>null\<close>: \<open>null\<close> and the empty
      string are falsy\<close>
  "js_or a b = (case a of None \<Rightarrow> b | Some x \<Rightarrow> if x = [] then b else a)"

definition createProjectile ::
  "string \<Rightarrow> real \<Rightarrow> real \<Rightarrow> real \<Rightarrow> string \<Rightarrow> string option \<Rightarrow> projectile" where
  "createProjectile ty x y hdg src tgt =
     \<lparr>proj_type = (if ty = [] then ''phaser'' else ty),
      proj_x = x, proj_y = y, proj_heading = hdg,
      proj_velocity = (if ty = ''torpedo'' then 12 else 50),
      damage = (if ty = ''torpedo'' then 30 else 10),
      sourceId = src,
      targetId = js_or tgt None,
      lifetime = (if ty = ''torpedo'' then 300 else 20),
      proj_size = (if ty = ''torpedo'' then 8 else 3)\<rparr>"

definition reset :: "(nat \<Rightarrow> real) \<Rightarrow> game_state" where
  \<comment> \<open>the state built by \<open>reset()\<close>; the argument is the stream \<open>Math.random()\<close>
      will read\<close>
  "reset rnd =
     \<lparr>store = (\<lambda>_. (createShip ''player'')
                 \<lparr>name := ''USS Endeavour'', faction := Friendly,
                  maxVelocity := 8, ship_size := 25\<rparr>),
      playerShip = 0, ships = [], projectiles = [], phaserBeams = [], commsLog = [],
      currentTarget = None, alertLevel = Normal, gameTime = 0,
      repairCooldowns = Map.empty, events = [], rand = rnd, randPos = 0\<rparr>"

definition addShip :: "ship \<Rightarrow> game_state \<Rightarrow> game_state" where
  \<comment> \<open>\<open>addShip(config)\<close> with \<open>shp = createShip(config)\<close>: the new object gets a
      fresh reference\<close>
  "addShip shp s =
     (let r = Suc (fold max (ships s) (playerShip s))
      in s\<lparr>store := (store s)(r := shp), ships := ships s @ [r]\<rparr>)"

subsection \<open>The damage pipeline\<close>

definition systems :: "string list" where
  "systems = [''engines'', ''weapons'', ''shields'', ''sensors'']"

definition absorbDamage :: "ship \<Rightarrow> real \<Rightarrow> ship \<times> real" where
  \<comment> \<open>the first block of \<open>damageShip\<close>: the ship after shields and hull have taken
      the damage, and \<open>hullDamage\<close>\<close>
  "absorbDamage shp dmg =
     (let shieldEffectiveness = sys_power (shields (subsystems shp)) / 100;
          shieldAbsorb = min (shieldStrength shp) (dmg * shieldEffectiveness * 0.8);
          shp1 = shp\<lparr>shieldStrength := shieldStrength shp - shieldAbsorb\<rparr>;
          hullDamage = dmg - shieldAbsorb;
          shp2 = shp1\<lparr>ship_hull := ship_hull shp1 - hullDamage\<rparr>
      in (shp2, hullDamage))"

definition randomSubsystemDamage :: "ref \<Rightarrow> real \<Rightarrow> game_state \<Rightarrow> error + game_state" where
  \<comment> \<open>\<open>if (hullDamage > 5 && Math.random() < 0.3) { ... }\<close>; indexing \<open>systems\<close> out of
      range gives \<open>undefined\<close>, whose \<open>hp\<close> cannot be read\<close>
  "randomSubsystemDamage r hullDamage s =
     (if hullDamage > 5 then
        (let (u, s1) = random s in
         if u < 0.3 then
           (let (v, s2) = random s1;
                i = \<lfloor>v * real (length systems)\<rfloor>
            in if 0 \<le> i \<and> i < int (length systems) then
                 (let system = systems ! nat i;
                      shp = store s2 r
                  in case get_system (subsystems shp) system of
                       Undefined \<Rightarrow> Inl TypeError
                     | Inherited \<Rightarrow>
                         Inr (if ship_id shp = ''player''
                              then addCommsMessage ''DAMAGE CONTROL''
                                     (toUpperCase system @ '' damaged!'') AlertMsg s2
                              else s2)
                     | Own sys \<Rightarrow>
                         (let sys' = sys\<lparr>hp := max 0 (hp sys - hullDamage * 0.5)\<rparr>;
                              shp' = shp\<lparr>subsystems := set_system system sys' (subsystems shp)\<rparr>;
                              s3 = s2\<lparr>store := (store s2)(r := shp')\<rparr>
                          in Inr (if ship_id shp = ''player''
                                  then addCommsMessage ''DAMAGE CONTROL''
                                         (toUpperCase system @ '' damaged!'') AlertMsg s3
                                  else s3)))
               else Inl TypeError)
         else Inr s1)
      else Inr s)"

definition checkDestruction :: "ref \<Rightarrow> game_state \<Rightarrow> game_state" where
  \<comment> \<open>\<open>if (ship.hull <= 0) { ... }\<close> at the end of \<open>damageShip\<close>\<close>
  "checkDestruction r s =
     (let shp = store s r in
      if ship_hull shp \<le> 0 then
        (let s1 = s\<lparr>store := (store s)(r := shp\<lparr>ship_hull := 0\<rparr>)\<rparr>
         in if ship_id shp \<noteq> ''player''
            then addCommsMessage ''TACTICAL'' (name shp @ '' destroyed!'') InfoMsg
                   (removeShip (ship_id shp) s1)
            else addCommsMessage ''SYSTEM'' ''HULL BREACH! ALL HANDS ABANDON SHIP!'' AlertMsg
                   (emit (PlayerDestroyed r) s1))
      else s)"

definition damageShip :: "ref \<Rightarrow> real \<Rightarrow> game_state \<Rightarrow> error + game_state" where
  "damageShip r dmg s =
     (let (shp2, hullDamage) = absorbDamage (store s r) dmg;
          s1 = s\<lparr>store := (store s)(r := shp2)\<rparr>
      in case randomSubsystemDamage r hullDamage s1 of
           Inl e \<Rightarrow> Inl e
         | Inr s2 \<Rightarrow> Inr (checkDestruction r (emit (ShipDamaged r dmg) s2)))"

subsection \<open>Commands\<close>

definition fireWeapon ::
  "string \<Rightarrow> string option \<Rightarrow> game_state \<Rightarrow> error + (bool \<times> game_state)" where
  "fireWeapon ty tid s =
     (let shp = store s (playerShip s);
          wpn = weapons (subsystems shp)
      in if hp wpn \<le> 0 \<or> sys_power wpn \<le> 0 then
           Inr (False, addCommsMessage ''SYSTEM'' ''Weapons offline!'' AlertMsg s)
         else
           (let effectiveness = (hp wpn / 100) * (sys_power wpn / 100)
            in if ty = ''phaser'' then
                 (case getShip (js_or tid (currentTarget s)) s of
                    None \<Rightarrow>
                      Inr (False, addCommsMessage ''SYSTEM'' ''No target locked!'' AlertMsg s)
                  | Some tgt \<Rightarrow>
                      (let distance = hypot (ship_x (store s tgt) - ship_x shp)
                                            (ship_y (store s tgt) - ship_y shp)
                       in if distance > 500 then
                            Inr (False, addCommsMessage ''SYSTEM''
                                          ''Target out of phaser range!'' AlertMsg s)
                          else
                            (let s1 = s\<lparr>phaserBeams := phaserBeams s @
                                        [\<lparr>beam_x1 = ship_x shp, beam_y1 = ship_y shp,
                                          beam_x2 = ship_x (store s tgt),
                                          beam_y2 = ship_y (store s tgt),
                                          beam_lifetime = 15\<rparr>]\<rparr>;
                                 dmg = 15 * effectiveness
                             in case damageShip tgt dmg s1 of
                                  Inl e \<Rightarrow> Inl e
                                | Inr s2 \<Rightarrow>
                                    Inr (True, emit (WeaponFired ''phaser'' (Some tgt)) s2))))
               else if ty = ''torpedo'' then
                 (let p = createProjectile ''torpedo'' (ship_x shp) (ship_y shp)
                            (heading shp) ''player'' (js_or tid (currentTarget s));
                      p' = p\<lparr>damage := damage p * effectiveness\<rparr>
                  in Inr (True, emit (WeaponFired ''torpedo'' None)
                                  (s\<lparr>projectiles := projectiles s @ [p']\<rparr>)))
               else Inr (False, s)))"

definition alertName :: "alert \<Rightarrow> string" where
  "alertName l = (case l of Normal \<Rightarrow> ''normal'' | Yellow \<Rightarrow> ''yellow'' | Red \<Rightarrow> ''red'')"

definition setAlertLevel :: "alert \<Rightarrow> game_state \<Rightarrow> game_state" where
  "setAlertLevel level s =
     (if alertLevel s \<noteq> level then
        addCommsMessage ''BRIDGE'' (toUpperCase (alertName level) @ '' ALERT'')
          (if level = Red then AlertMsg else InfoMsg)
          (emit (AlertChanged level) (s\<lparr>alertLevel := level\<rparr>))
      else s)"

definition repairSubsystem :: "string \<Rightarrow> game_state \<Rightarrow> error + (bool \<times> game_state)" where
  \<comment> \<open>\<open>repairCooldowns[systemName] > 0\<close> is false without an own entry (an inherited
      member is not a number); reading \<open>hp\<close> of a missing subsystem throws; assigning a
      number to \<open>repairCooldowns['__proto__']\<close> has no effect\<close>
  "repairSubsystem systemName s =
     (if (case repairCooldowns s systemName of None \<Rightarrow> False | Some c \<Rightarrow> c > 0) then
        Inr (False, s)
      else
        (let shp = store s (playerShip s)
         in case get_system (subsystems shp) systemName of
              Undefined \<Rightarrow> Inl TypeError
            | Inherited \<Rightarrow>
                (let s1 = (if systemName = ''__proto__'' then s
                           else s\<lparr>repairCooldowns := (repairCooldowns s)(systemName \<mapsto> 300)\<rparr>);
                     s2 = addCommsMessage ''ENGINEERING''
                            (''Repairing '' @ systemName @ ''...'') InfoMsg s1
                 in Inr (True, emit (RepairStarted systemName) s2))
            | Own sys \<Rightarrow>
                if hp sys \<ge> maxHp sys then Inr (False, s)
                else
                  (let sys' = sys\<lparr>hp := min (maxHp sys) (hp sys + 25)\<rparr>;
                       shp' = shp\<lparr>subsystems := set_system systemName sys' (subsystems shp)\<rparr>;
                       s1 = s\<lparr>store := (store s)(playerShip s := shp'),
                              repairCooldowns := (repairCooldowns s)(systemName \<mapsto> 300)\<rparr>;
                       s2 = addCommsMessage ''ENGINEERING''
                              (''Repairing '' @ systemName @ ''...'') InfoMsg s1
                   in Inr (True, emit (RepairStarted systemName) s2))))"

definition setPower :: "string \<Rightarrow> real \<Rightarrow> game_state \<Rightarrow> game_state" where
  "setPower systemName pwr s =
     (let shp = store s (playerShip s)
      in case get_system (subsystems shp) systemName of
           Undefined \<Rightarrow> s
         | Inherited \<Rightarrow> emit (PowerChanged systemName (max 0 (min 100 pwr))) s
         | Own sys \<Rightarrow>
             (let sys' = sys\<lparr>sys_power := max 0 (min 100 pwr)\<rparr>;
                  shp' = shp\<lparr>subsystems := set_system systemName sys' (subsystems shp)\<rparr>;
                  s1 = s\<lparr>store := (store s)(playerShip s := shp')\<rparr>
              in emit (PowerChanged systemName (sys_power sys')) s1))"

section \<open>Helm station (helm.js)\<close>

definition engineEffectivenessOf :: "ship \<Rightarrow> real" where
  \<comment> \<open>the local \<open>engineEffectiveness\<close> of \<open>setThrottle\<close>\<close>
  "engineEffectivenessOf shp =
     (hp (engines (subsystems shp)) / 100) * (sys_power (engines (subsystems shp)) / 100)"

definition setThrottle :: "real \<Rightarrow> game_state \<Rightarrow> game_state" where
  "setThrottle percent s =
     (let shp = store s (playerShip s);
          engineEffectiveness = engineEffectivenessOf shp
      in s\<lparr>store := (store s)(playerShip s :=
              shp\<lparr>velocity := (percent / 100) * maxVelocity shp * engineEffectiveness\<rparr>)\<rparr>)"

definition setHeading :: "real \<Rightarrow> game_state \<Rightarrow> game_state" where
  "setHeading h s =
     (let h' = js_rem (js_rem h 360 + 360) 360
      in s\<lparr>store := (store s)(playerShip s := (store s (playerShip s))\<lparr>heading := h'\<rparr>)\<rparr>)"

definition turn :: "real \<Rightarrow> game_state \<Rightarrow> game_state" where
  "turn degrees s =
     (let h = heading (store s (playerShip s)) + degrees;
          h' = js_rem (js_rem h 360 + 360) 360
      in s\<lparr>store := (store s)(playerShip s := (store s (playerShip s))\<lparr>heading := h'\<rparr>)\<rparr>)"

section \<open>Simulation engine (simulation.js)\<close>

definition getSystemEffectiveness :: "ship \<Rightarrow> (subsystems \<Rightarrow> subsystem) \<Rightarrow> real" where
  \<comment> \<open>every call passes the literal name of one of the four subsystems, so the
      parameter is the field selector\<close>
  "getSystemEffectiveness shp system =
     (let sys = system (subsystems shp) in (hp sys / 100) * (sys_power sys / 100))"

definition js_div_less :: "real \<Rightarrow> real \<Rightarrow> real \<Rightarrow> bool" where
  \<comment> \<open>\<open>a / b < c\<close>: a zero divisor gives \<open>NaN\<close> or an infinity, and only \<open>-Infinity\<close>
      is below \<open>c\<close>\<close>
  "js_div_less a b c = (if b = 0 then a < 0 else a / b < c)"

definition updateNPCAI :: "ref \<Rightarrow> game_state \<Rightarrow> game_state" where
  "updateNPCAI r s =
     (let shp = store s r;
          player = store s (playerShip s);
          distToPlayer = hypot (ship_x player - ship_x shp) (ship_y player - ship_y shp);
          shp' =
            (case faction shp of
               Friendly \<Rightarrow>
                 if distToPlayer > 500
                 then shp\<lparr>aiState := Approach, target := Some ''player''\<rparr>
                 else shp\<lparr>aiState := Patrol\<rparr>
             | Neutral \<Rightarrow> shp\<lparr>aiState := Patrol\<rparr>
             | Hostile \<Rightarrow>
                 if js_div_less (ship_hull shp) (maxHull shp) 0.3
                 then shp\<lparr>aiState := Flee\<rparr>
                 else if distToPlayer < 800
                 then shp\<lparr>aiState := Attack, target := Some ''player''\<rparr>
                 else if distToPlayer < 1500
                 then shp\<lparr>aiState := Approach, target := Some ''player''\<rparr>
                 else shp\<lparr>aiState := Patrol\<rparr>)
      in s\<lparr>store := (store s)(r := shp')\<rparr>)"

definition npcFireAtPlayer :: "ref \<Rightarrow> game_state \<Rightarrow> error + game_state" where
  "npcFireAtPlayer r s =
     (let shp = store s r;
          weaponEffectiveness = getSystemEffectiveness shp weapons
      in if weaponEffectiveness \<le> 0 then Inr s
         else
           (let player = store s (playerShip s);
                distance = hypot (ship_x player - ship_x shp) (ship_y player - ship_y shp)
            in if distance < 400 then
                 (let s1 = s\<lparr>phaserBeams := phaserBeams s @
                             [\<lparr>beam_x1 = ship_x shp, beam_y1 = ship_y shp,
                               beam_x2 = ship_x player, beam_y2 = ship_y player,
                               beam_lifetime = 15\<rparr>]\<rparr>;
                      dmg = 10 * weaponEffectiveness
                  in case damageShip (playerShip s) dmg s1 of
                       Inl e \<Rightarrow> Inl e
                     | Inr s2 \<Rightarrow> Inr (play ''hullHit'' s2))
               else Inr s))"

text \<open>The four \<open>while\<close> loops of \<open>moveNPCShip\<close>.\<close>

function angleDown :: "real \<Rightarrow> real" where
  \<comment> \<open>\<open>while (angleDiff > 180) angleDiff -= 360\<close>\<close>
  "angleDown d = (if d > 180 then angleDown (d - 360) else d)"
  by pat_completeness auto
termination
proof (relation "measure (\<lambda>d. nat \<lceil>d / 360\<rceil>)")
  show "wf (measure (\<lambda>d::real. nat \<lceil>d / 360\<rceil>))" by simp
next
  fix d :: real
  assume c: "d > 180"
  have a: "0 < \<lceil>d / 360\<rceil>" using c by (simp add: ceiling_less_iff)
  have "(d - 360) / 360 = d / 360 - 1" by (simp add: field_simps)
  then have b: "\<lceil>(d - 360) / 360\<rceil> = \<lceil>d / 360\<rceil> - 1"
    by (simp only: ceiling_diff_one)
  have "nat \<lceil>(d - 360) / 360\<rceil> < nat \<lceil>d / 360\<rceil>"
    unfolding b using a by linarith
  then show "(d - 360, d) \<in> measure (\<lambda>d. nat \<lceil>d / 360\<rceil>)"
    by (simp only: in_measure)
qed

function angleUp :: "real \<Rightarrow> real" where
  \<comment> \<open>\<open>while (angleDiff < -180) angleDiff += 360\<close>\<close>
  "angleUp d = (if d < - 180 then angleUp (d + 360) else d)"
  by pat_completeness auto
termination
proof (relation "measure (\<lambda>d. nat \<lceil>- d / 360\<rceil>)")
  show "wf (measure (\<lambda>d::real. nat \<lceil>- d / 360\<rceil>))" by simp
next
  fix d :: real
  assume c: "d < - 180"
  have a: "0 < \<lceil>- d / 360\<rceil>" using c by (simp add: ceiling_less_iff)
  have "- (d + 360) / 360 = - d / 360 - 1" by (simp add: field_simps)
  then have b: "\<lceil>- (d + 360) / 360\<rceil> = \<lceil>- d / 360\<rceil> - 1"
    by (simp only: ceiling_diff_one)
  have "nat \<lceil>- (d + 360) / 360\<rceil> < nat \<lceil>- d / 360\<rceil>"
    unfolding b using a by linarith
  then show "(d + 360, d) \<in> measure (\<lambda>d. nat \<lceil>- d / 360\<rceil>)"
    by (simp only: in_measure)
qed

function headingUp :: "real \<Rightarrow> real" where
  \<comment> \<open>\<open>while (ship.heading < 0) ship.heading += 360\<close>\<close>
  "headingUp h = (if h < 0 then headingUp (h + 360) else h)"
  by pat_completeness auto
termination
proof (relation "measure (\<lambda>h. nat \<lceil>- h / 360\<rceil>)")
  show "wf (measure (\<lambda>h::real. nat \<lceil>- h / 360\<rceil>))" by simp
next
  fix h :: real
  assume c: "h < 0"
  have a: "0 < \<lceil>- h / 360\<rceil>" using c by (simp add: ceiling_less_iff)
  have "- (h + 360) / 360 = - h / 360 - 1" by (simp add: field_simps)
  then have b: "\<lceil>- (h + 360) / 360\<rceil> = \<lceil>- h / 360\<rceil> - 1"
    by (simp only: ceiling_diff_one)
  have "nat \<lceil>- (h + 360) / 360\<rceil> < nat \<lceil>- h / 360\<rceil>"
    unfolding b using a by linarith
  then show "(h + 360, h) \<in> measure (\<lambda>h. nat \<lceil>- h / 360\<rceil>)"
    by (simp only: in_measure)
qed

function headingDown :: "real \<Rightarrow> real" where
  \<comment> \<open>\<open>while (ship.heading >= 360) ship.heading -= 360\<close>\<close>
  "headingDown h = (if h \<ge> 360 then headingDown (h - 360) else h)"
  by pat_completeness auto
termination
proof (relation "measure (\<lambda>h. nat \<lfloor>h / 360 + 1\<rfloor>)")
  show "wf (measure (\<lambda>h::real. nat \<lfloor>h / 360 + 1\<rfloor>))" by simp
next
  fix h :: real
  assume c: "h \<ge> 360"
  have a: "0 < \<lfloor>h / 360 + 1\<rfloor>" using c by (simp add: less_floor_iff)
  have "(h - 360) / 360 + 1 = h / 360 + 1 - 1" by (simp add: field_simps)
  then have b: "\<lfloor>(h - 360) / 360 + 1\<rfloor> = \<lfloor>h / 360 + 1\<rfloor> - 1"
    by (simp only: floor_diff_one)
  have "nat \<lfloor>(h - 360) / 360 + 1\<rfloor> < nat \<lfloor>h / 360 + 1\<rfloor>"
    unfolding b using a by linarith
  then show "(h - 360, h) \<in> measure (\<lambda>h. nat \<lfloor>h / 360 + 1\<rfloor>)"
    by (simp only: in_measure)
qed

declare angleDown.simps [simp del] angleUp.simps [simp del]
  headingUp.simps [simp del] headingDown.simps [simp del]

definition setVelocity :: "ref \<Rightarrow> real \<Rightarrow> game_state \<Rightarrow> game_state" where
  \<comment> \<open>the assignment \<open>ship.velocity = v\<close>\<close>
  "setVelocity r v s = s\<lparr>store := (store s)(r := (store s r)\<lparr>velocity := v\<rparr>)\<rparr>"

definition selectTarget ::
  "ref \<Rightarrow> real \<Rightarrow> game_state \<Rightarrow> error + ((real \<times> real) option \<times> game_state)" where
  \<comment> \<open>the \<open>switch (ship.aiState)\<close> of \<open>moveNPCShip\<close>: the target point
      \<open>(targetX, targetY)\<close>, \<open>None\<close> while both are \<open>undefined\<close>, and the state
      after the branch.  Reading a patrol point beyond the end of the route throws.\<close>
  "selectTarget r engineEffectiveness s =
     (let shp = store s r in
      case aiState shp of
        Patrol \<Rightarrow>
          if length (patrolPoints shp) > 0 then
            (if patrolIndex shp < length (patrolPoints shp) then
               (let (targetX, targetY) = patrolPoints shp ! patrolIndex shp;
                    dist = hypot (targetX - ship_x shp) (targetY - ship_y shp);
                    shp1 = (if dist < 30
                            then shp\<lparr>patrolIndex :=
                                   (patrolIndex shp + 1) mod length (patrolPoints shp)\<rparr>
                            else shp);
                    s1 = s\<lparr>store := (store s)(r := shp1)\<rparr>
                in Inr (Some (targetX, targetY),
                        setVelocity r (maxVelocity shp * 0.5 * engineEffectiveness) s1))
             else Inl TypeError)
          else Inr (None, setVelocity r 0 s)
      | Approach \<Rightarrow>
          if target shp = Some ''player'' then
            (let approachTarget = store s (playerShip s)
             in Inr (Some (ship_x approachTarget, ship_y approachTarget),
                     setVelocity r (maxVelocity shp * 0.8 * engineEffectiveness) s))
          else Inr (None, s)
      | Attack \<Rightarrow>
          if target shp = Some ''player'' then
            (let attackTarget = store s (playerShip s);
                 targetX = ship_x attackTarget;
                 targetY = ship_y attackTarget;
                 s1 = setVelocity r (maxVelocity shp * engineEffectiveness) s;
                 dist = hypot (targetX - ship_x shp) (targetY - ship_y shp)
             in if dist < 400 then
                  (let (u, s2) = random s1 in
                   if u < 0.02 then
                     (case npcFireAtPlayer r s2 of
                        Inl e \<Rightarrow> Inl e
                      | Inr s3 \<Rightarrow> Inr (Some (targetX, targetY), s3))
                   else Inr (Some (targetX, targetY), s2))
                else Inr (Some (targetX, targetY), s1))
          else Inr (None, s)
      | Flee \<Rightarrow>
          (let fleeFrom = store s (playerShip s);
               angle = atan2 (ship_y shp - ship_y fleeFrom) (ship_x shp - ship_x fleeFrom)
           in Inr (Some (ship_x shp + cos angle * 500, ship_y shp + sin angle * 500),
                   setVelocity r (maxVelocity shp * engineEffectiveness) s)))"

definition turnTowards ::
  "ref \<Rightarrow> (real \<times> real) option \<Rightarrow> real \<Rightarrow> game_state \<Rightarrow> game_state" where
  \<comment> \<open>\<open>if (targetX !== undefined && targetY !== undefined) { ... }\<close>\<close>
  "turnTowards r tgt engineEffectiveness s =
     (case tgt of
        None \<Rightarrow> s
      | Some (targetX, targetY) \<Rightarrow>
          (let shp = store s r;
               targetAngle = atan2 (targetY - ship_y shp) (targetX - ship_x shp) * 180 / pi;
               angleDiff = angleUp (angleDown (targetAngle - heading shp));
               turnSpeed = turnRate shp * engineEffectiveness;
               h1 = (if \<bar>angleDiff\<bar> < turnSpeed then targetAngle
                     else heading shp + (if angleDiff > 0 then turnSpeed else - turnSpeed));
               h2 = headingDown (headingUp h1)
           in s\<lparr>store := (store s)(r := shp\<lparr>heading := h2\<rparr>)\<rparr>))"

definition applyMovement :: "ref \<Rightarrow> game_state \<Rightarrow> game_state" where
  \<comment> \<open>the last three lines of \<open>moveNPCShip\<close>\<close>
  "applyMovement r s =
     (let shp = store s r;
          radians = (heading shp * pi) / 180
      in s\<lparr>store := (store s)(r :=
              shp\<lparr>ship_x := ship_x shp + cos radians * velocity shp,
                  ship_y := ship_y shp + sin radians * velocity shp\<rparr>)\<rparr>)"

definition moveNPCShip :: "ref \<Rightarrow> game_state \<Rightarrow> error + game_state" where
  "moveNPCShip r s =
     (let engineEffectiveness = getSystemEffectiveness (store s r) engines
      in case selectTarget r engineEffectiveness s of
           Inl e \<Rightarrow> Inl e
         | Inr (tgt, s1) \<Rightarrow> Inr (applyMovement r (turnTowards r tgt engineEffectiveness s1)))"

subsection \<open>Projectiles\<close>


definition collides :: "game_state \<Rightarrow> projectile \<Rightarrow> ref \<Rightarrow> bool" where
  \<comment> \<open>\<open>dist < target.size + proj.size\<close>\<close>
  "collides s proj t =
     (let tg = store s t;
          dist = hypot (ship_x tg - proj_x proj) (ship_y tg - proj_y proj)
      in dist < ship_size tg + proj_size proj)"


definition targetsOf :: "game_state \<Rightarrow> projectile \<Rightarrow> ref list" where
  "targetsOf s proj = (if sourceId proj = ''player'' then ships s else [playerShip s])"




subsection \<open>Alert level\<close>

definition nearestHostileDistance :: "game_state \<Rightarrow> real option" where
  \<comment> \<open>the \<open>forEach\<close> of \<open>checkAlertLevel\<close>; \<open>None\<close> is the initial \<open>Infinity\<close>\<close>
  "nearestHostileDistance s =
     fold (\<lambda>r nearest.
             let shp = store s r; player = store s (playerShip s)
             in if faction shp = Hostile then
                  (let dist = hypot (ship_x shp - ship_x player) (ship_y shp - ship_y player)
                   in Some (case nearest of None \<Rightarrow> dist | Some m \<Rightarrow> min m dist))
                else nearest)
          (ships s) None"

definition distBelow :: "real option \<Rightarrow> real \<Rightarrow> bool" where
  \<comment> \<open>\<open>d < c\<close> where \<open>d\<close> may be \<open>Infinity\<close>\<close>
  "distBelow d c = (case d of None \<Rightarrow> False | Some x \<Rightarrow> x < c)"

definition distAbove :: "real option \<Rightarrow> real \<Rightarrow> bool" where
  \<comment> \<open>\<open>d > c\<close> where \<open>d\<close> may be \<open>Infinity\<close>\<close>
  "distAbove d c = (case d of None \<Rightarrow> True | Some x \<Rightarrow> x > c)"

definition checkAlertLevel :: "game_state \<Rightarrow> game_state" where
  "checkAlertLevel s =
     (let nearest = nearestHostileDistance s
      in if distBelow nearest 500 then
           (if alertLevel s \<noteq> Red then play ''redAlert'' (setAlertLevel Red s) else s)
         else if distBelow nearest 1000 then
           (if alertLevel s \<noteq> Yellow \<and> alertLevel s \<noteq> Red
            then play ''yellowAlert'' (setAlertLevel Yellow s) else s)
         else if alertLevel s \<noteq> Normal \<and> distAbove nearest 1500 then setAlertLevel Normal s
         else s)"

section \<open>Notions used in the statements\<close>

text \<open>
  Observations on the event trace, and names for expressions that the source
  computes in place.
\<close>

fun destroyedShips :: "event list \<Rightarrow> ref list" where
  \<comment> \<open>the payloads of the \<open>shipDestroyed\<close> events, in order\<close>
  "destroyedShips [] = []"
| "destroyedShips (ShipDestroyed r # es) = r # destroyedShips es"
| "destroyedShips (e # es) = destroyedShips es"

fun playerDestroyedEvents :: "event list \<Rightarrow> ref list" where
  \<comment> \<open>the payloads of the \<open>playerDestroyed\<close> events, in order\<close>
  "playerDestroyedEvents [] = []"
| "playerDestroyedEvents (PlayerDestroyed r # es) = r # playerDestroyedEvents es"
| "playerDestroyedEvents (e # es) = playerDestroyedEvents es"

fun damagedShips :: "event list \<Rightarrow> (ref \<times> real) list" where
  \<comment> \<open>the payloads of the \<open>shipDamaged\<close> events, in order\<close>
  "damagedShips [] = []"
| "damagedShips (ShipDamaged r d # es) = (r, d) # damagedShips es"
| "damagedShips (e # es) = damagedShips es"

fun alertChanges :: "event list \<Rightarrow> alert list" where
  \<comment> \<open>the payloads of the \<open>alertChanged\<close> events, in order\<close>
  "alertChanges [] = []"
| "alertChanges (AlertChanged l # es) = l # alertChanges es"
| "alertChanges (e # es) = alertChanges es"

definition firstHit :: "game_state \<Rightarrow> projectile \<Rightarrow> ref option" where
  \<comment> \<open>the first target, in the order of the scan, that the projectile collides with\<close>
  "firstHit s proj = find (collides s proj) (targetsOf s proj)"

definition hostileDistances :: "game_state \<Rightarrow> real list" where
  \<comment> \<open>the distance from the player to each hostile ship of the ship list\<close>
  "hostileDistances s =
     map (\<lambda>r. hypot (ship_x (store s r) - ship_x (store s (playerShip s)))
                     (ship_y (store s r) - ship_y (store s (playerShip s))))
         (filter (\<lambda>r. faction (store s r) = Hostile) (ships s))"

definition distToPlayer :: "ref \<Rightarrow> game_state \<Rightarrow> real" where
  \<comment> \<open>\<open>Math.hypot(player.x - ship.x, player.y - ship.y)\<close>\<close>
  "distToPlayer r s =
     hypot (ship_x (store s (playerShip s)) - ship_x (store s r))
           (ship_y (store s (playerShip s)) - ship_y (store s r))"

definition npcBeam :: "ref \<Rightarrow> game_state \<Rightarrow> beam" where
  \<comment> \<open>the beam record that \<open>npcFireAtPlayer\<close> pushes\<close>
  "npcBeam r s =
     \<lparr>beam_x1 = ship_x (store s r), beam_y1 = ship_y (store s r),
      beam_x2 = ship_x (store s (playerShip s)), beam_y2 = ship_y (store s (playerShip s)),
      beam_lifetime = 15\<rparr>"

definition hasTargetPoint :: "ship \<Rightarrow> bool" where
  \<comment> \<open>the branches of the \<open>switch\<close> of \<open>moveNPCShip\<close> that assign \<open>targetX\<close> and
      \<open>targetY\<close>\<close>
  "hasTargetPoint shp =
     (case aiState shp of
        Patrol \<Rightarrow> patrolPoints shp \<noteq> []
      | Approach \<Rightarrow> target shp = Some ''player''
      | Attack \<Rightarrow> target shp = Some ''player''
      | Flee \<Rightarrow> True)"

definition speedSelected :: "ship \<Rightarrow> bool" where
  \<comment> \<open>the branches of the \<open>switch\<close> of \<open>moveNPCShip\<close> that assign \<open>ship.velocity\<close>\<close>
  "speedSelected shp =
     (case aiState shp of
        Patrol \<Rightarrow> True
      | Approach \<Rightarrow> target shp = Some ''player''
      | Attack \<Rightarrow> target shp = Some ''player''
      | Flee \<Rightarrow> True)"

definition routeOk :: "ship \<Rightarrow> bool" where
  \<comment> \<open>a patrolling ship with a route has its patrol index inside the route\<close>
  "routeOk shp =
     (aiState shp = Patrol \<and> patrolPoints shp \<noteq> [] \<longrightarrow>
        patrolIndex shp < length (patrolPoints shp))"

definition playerWeapons :: "game_state \<Rightarrow> subsystem" where
  \<comment> \<open>the local \<open>weapons\<close> of \<open>fireWeapon\<close>\<close>
  "playerWeapons s = weapons (subsystems (store s (playerShip s)))"

definition lockedTarget :: "string option \<Rightarrow> game_state \<Rightarrow> ref option" where
  \<comment> \<open>\<open>this.getShip(targetId || this.currentTarget)\<close>\<close>
  "lockedTarget tid s = getShip (js_or tid (currentTarget s)) s"

definition phaserDistance :: "ref \<Rightarrow> game_state \<Rightarrow> real" where
  \<comment> \<open>\<open>Math.hypot(target.x - ship.x, target.y - ship.y)\<close>\<close>
  "phaserDistance tgt s =
     hypot (ship_x (store s tgt) - ship_x (store s (playerShip s)))
           (ship_y (store s tgt) - ship_y (store s (playerShip s)))"


definition setProjectiles :: "projectile list \<Rightarrow> game_state \<Rightarrow> game_state" where
  \<comment> \<open>the state with its projectile list replaced\<close>
  "setProjectiles ps s = s\<lparr>projectiles := ps\<rparr>"

definition finishSweep :: "error + (projectile list \<times> game_state) \<Rightarrow> error + game_state" where
  \<comment> \<open>the state after a sweep: the world it left, holding the survivors\<close>
  "finishSweep res =
     (case res of Inl e \<Rightarrow> Inl e | Inr (kept, w) \<Rightarrow> Inr (setProjectiles kept w))"

section \<open>Scenarios\<close>

text \<open>
  Concrete states on which the theorems are exercised.  \<open>skirmish\<close> is the state
  that \<open>reset()\<close> builds with one hostile warship added 300 units from the player;
  the player has reference 0 and the warship reference 1.
\<close>

definition steady :: "real \<Rightarrow> nat \<Rightarrow> real" where
  \<comment> \<open>a random stream that always returns the same value\<close>
  "steady c n = c"

definition hostile1 :: ship where
  "hostile1 = (createShip ''h1'')
     \<lparr>name := ''IKS Vengeance'', faction := Hostile, ship_x := 300,
      maxVelocity := 7, turnRate := 2, ship_size := 28\<rparr>"

definition skirmish :: "(nat \<Rightarrow> real) \<Rightarrow> game_state" where
  "skirmish rnd = addShip hostile1 (reset rnd)"


definition wounded :: "(nat \<Rightarrow> real) \<Rightarrow> game_state" where
  \<comment> \<open>the scenario with the warship's hull down to 20 of 100\<close>
  "wounded rnd = (skirmish rnd)\<lparr>store := (store (skirmish rnd))(Suc 0 := hostile1\<lparr>ship_hull := 20\<rparr>)\<rparr>"

definition contact :: "real \<Rightarrow> alert \<Rightarrow> game_state" where
  \<comment> \<open>the warship alone at distance \<open>d\<close> on the x axis, with a given alert level\<close>
  "contact d l = (addShip (hostile1\<lparr>ship_x := d\<rparr>) (reset (steady 0)))\<lparr>alertLevel := l\<rparr>"

definition engaged :: "(nat \<Rightarrow> real) \<Rightarrow> game_state" where
  \<comment> \<open>the scenario after the AI evaluation of the warship: it attacks the player\<close>
  "engaged rnd = updateNPCAI (Suc 0) (skirmish rnd)"

definition adrift :: game_state where
  \<comment> \<open>a neutral ship without a patrol route, created with heading 400\<close>
  "adrift = addShip ((createShip ''n1'')\<lparr>heading := 400\<rparr>) (reset (steady 0))"

definition starved :: game_state where
  \<comment> \<open>full throttle at engine power 50, then engine power cut to 10\<close>
  "starved = setPower ''engines'' 10 (setThrottle 100 (skirmish (steady 0)))"

definition disarmed :: game_state where
  \<comment> \<open>the scenario with the player's weapons power set to 0\<close>
  "disarmed = setPower ''weapons'' 0 (skirmish (steady 0))"

section \<open>Frame lemmas\<close>

lemma emit_simps [simp]:
  "store (emit e s) = store s" "ships (emit e s) = ships s"
  "playerShip (emit e s) = playerShip s" "currentTarget (emit e s) = currentTarget s"
  "events (emit e s) = events s @ [e]" "projectiles (emit e s) = projectiles s"
  "phaserBeams (emit e s) = phaserBeams s" "commsLog (emit e s) = commsLog s"
  "alertLevel (emit e s) = alertLevel s" "rand (emit e s) = rand s"
  "randPos (emit e s) = randPos s" "gameTime (emit e s) = gameTime s"
  "repairCooldowns (emit e s) = repairCooldowns s"
  by (simp_all add: emit_def)

lemma addCommsMessage_simps [simp]:
  "store (addCommsMessage a b c s) = store s"
  "ships (addCommsMessage a b c s) = ships s"
  "playerShip (addCommsMessage a b c s) = playerShip s"
  "currentTarget (addCommsMessage a b c s) = currentTarget s"
  "projectiles (addCommsMessage a b c s) = projectiles s"
  "phaserBeams (addCommsMessage a b c s) = phaserBeams s"
  "alertLevel (addCommsMessage a b c s) = alertLevel s"
  "rand (addCommsMessage a b c s) = rand s"
  "randPos (addCommsMessage a b c s) = randPos s"
  "gameTime (addCommsMessage a b c s) = gameTime s"
  "repairCooldowns (addCommsMessage a b c s) = repairCooldowns s"
  by (simp_all add: addCommsMessage_def Let_def)

lemma events_addCommsMessage:
  "events (addCommsMessage a b c s) =
     events s @ [CommsMessage \<lparr>sender = a, message = b, msg_type = c,
                               timestamp = gameTime s, msg_read = False\<rparr>]"
  by (simp add: addCommsMessage_def Let_def)

lemma rand_ok_cong: "rand s' = rand s \<Longrightarrow> rand_ok s' = rand_ok s"
  by (simp add: rand_ok_def)

lemma findIndex_first:
  "distinct (map f xs) \<Longrightarrow> r \<in> set xs \<Longrightarrow>
   \<exists>i. findIndex (\<lambda>a. f a = f r) xs = Some i \<and> i < length xs \<and> xs ! i = r \<and>
       take i xs @ drop (Suc i) xs = remove1 r xs"
proof (induction xs)
  case Nil
  then show ?case by simp
next
  case (Cons x xs)
  show ?case
  proof (cases "x = r")
    case True
    then show ?thesis by simp
  next
    case False
    with Cons.prems have "f x \<noteq> f r" and "r \<in> set xs" and "distinct (map f xs)"
      by auto
    with Cons.IH False show ?thesis by auto
  qed
qed

lemma removeShip_simps [simp]:
  "store (removeShip i s) = store s" "playerShip (removeShip i s) = playerShip s"
  "projectiles (removeShip i s) = projectiles s" "phaserBeams (removeShip i s) = phaserBeams s"
  "rand (removeShip i s) = rand s" "randPos (removeShip i s) = randPos s"
  "alertLevel (removeShip i s) = alertLevel s" "gameTime (removeShip i s) = gameTime s"
  by (simp_all add: removeShip_def Let_def split: option.splits)

lemma removeShip_listed:
  assumes "distinct (map (\<lambda>a. ship_id (store s a)) (ships s))" and "r \<in> set (ships s)"
  shows "ships (removeShip (ship_id (store s r)) s) = remove1 r (ships s)"
    and "events (removeShip (ship_id (store s r)) s) = events s @ [ShipDestroyed r]"
proof -
  from findIndex_first [OF assms]
  obtain i where i: "findIndex (\<lambda>a. ship_id (store s a) = ship_id (store s r)) (ships s) = Some i"
    "ships s ! i = r" "take i (ships s) @ drop (Suc i) (ships s) = remove1 r (ships s)"
    by blast
  show "ships (removeShip (ship_id (store s r)) s) = remove1 r (ships s)"
    using i by (simp add: removeShip_def Let_def)
  show "events (removeShip (ship_id (store s r)) s) = events s @ [ShipDestroyed r]"
    using i by (simp add: removeShip_def Let_def)
qed

section \<open>The damage pipeline\<close>

lemma destroyedShips_append [simp]:
  "destroyedShips (xs @ ys) = destroyedShips xs @ destroyedShips ys"
  by (induction xs rule: destroyedShips.induct) auto

lemma playerDestroyedEvents_append [simp]:
  "playerDestroyedEvents (xs @ ys) = playerDestroyedEvents xs @ playerDestroyedEvents ys"
  by (induction xs rule: playerDestroyedEvents.induct) auto

lemma absorbDamage_fields:
  "shieldStrength (fst (absorbDamage shp dmg)) =
     shieldStrength shp - min (shieldStrength shp)
                              (dmg * (sys_power (shields (subsystems shp)) / 100) * 0.8)"
  "ship_id (fst (absorbDamage shp dmg)) = ship_id shp"
  by (simp_all add: absorbDamage_def Let_def)

lemma absorbDamage_shield_nonneg: "0 \<le> shieldStrength (fst (absorbDamage shp dmg))"
  by (simp add: absorbDamage_fields)

lemma checkDestruction_hull: "0 \<le> ship_hull (store (checkDestruction r s) r)"
  by (simp add: checkDestruction_def Let_def)

lemma checkDestruction_shield:
  "shieldStrength (store (checkDestruction r s) r) = shieldStrength (store s r)"
  by (simp add: checkDestruction_def Let_def)

lemma get_system_systems:
  "i < length systems \<Longrightarrow> \<exists>sys. get_system subs (systems ! i) = Own sys"
  by (auto simp: systems_def get_system_def nth_Cons split: nat.splits)

lemma systems_index:
  assumes "0 \<le> v" "v < 1"
  shows "0 \<le> \<lfloor>v * real (length systems)\<rfloor>"
    and "\<lfloor>v * real (length systems)\<rfloor> < int (length systems)"
proof -
  have len: "length systems = 4" by (simp add: systems_def)
  show "0 \<le> \<lfloor>v * real (length systems)\<rfloor>" using assms by (simp add: len)
  have "v * 4 < 4" using assms by simp
  then have "\<lfloor>v * 4\<rfloor> < 4" by linarith
  then show "\<lfloor>v * real (length systems)\<rfloor> < int (length systems)" by (simp add: len)
qed

lemma randomSubsystemDamage_total:
  assumes "rand_ok s"
  shows "\<exists>s'. randomSubsystemDamage r d s = Inr s'"
proof (cases "5 < d \<and> rand s (randPos s) < 0.3")
  case False
  then show ?thesis
    by (auto simp: randomSubsystemDamage_def random_def)
next
  case True
  let ?v = "rand s (Suc (randPos s))"
  let ?i = "\<lfloor>?v * real (length systems)\<rfloor>"
  have v: "0 \<le> ?v" "?v < 1" using assms by (auto simp: rand_ok_def)
  note idx = systems_index [OF v]
  then have "nat ?i < length systems" by linarith
  from get_system_systems [OF this]
  obtain sys where "get_system (subsystems (store s r)) (systems ! nat ?i) = Own sys"
    by blast
  with True idx show ?thesis
    by (simp add: randomSubsystemDamage_def random_def Let_def)
qed

lemma randomSubsystemDamage_frame:
  assumes "randomSubsystemDamage r d s = Inr s'"
  shows "ships s' = ships s" "playerShip s' = playerShip s"
    "currentTarget s' = currentTarget s" "rand s' = rand s"
    "projectiles s' = projectiles s" "phaserBeams s' = phaserBeams s"
    "alertLevel s' = alertLevel s"
    "ship_id (store s' a) = ship_id (store s a)"
    "ship_hull (store s' a) = ship_hull (store s a)"
    "shieldStrength (store s' a) = shieldStrength (store s a)"
    "destroyedShips (events s') = destroyedShips (events s)"
    "playerDestroyedEvents (events s') = playerDestroyedEvents (events s)"
  using assms unfolding randomSubsystemDamage_def random_def Let_def
  by (auto simp: events_addCommsMessage split: if_splits property.splits)

lemma damageShip_Inr:
  assumes "damageShip r dmg s = Inr s'"
  obtains s2 where
    "randomSubsystemDamage r (snd (absorbDamage (store s r) dmg))
       (s\<lparr>store := (store s)(r := fst (absorbDamage (store s r) dmg))\<rparr>) = Inr s2"
    and "s' = checkDestruction r (emit (ShipDamaged r dmg) s2)"
  using assms by (auto simp: damageShip_def Let_def split_beta split: sum.splits)

lemma damageShip_total:
  assumes "rand_ok s"
  shows "\<exists>s'. damageShip r dmg s = Inr s'"
proof -
  let ?s1 = "s\<lparr>store := (store s)(r := fst (absorbDamage (store s r) dmg))\<rparr>"
  have "rand_ok ?s1" using assms by (simp add: rand_ok_def)
  from randomSubsystemDamage_total [OF this]
  obtain s2 where "randomSubsystemDamage r (snd (absorbDamage (store s r) dmg)) ?s1 = Inr s2"
    by blast
  then show ?thesis
    by (simp add: damageShip_def Let_def split_beta)
qed

lemma damageShip_nonneg:
  assumes run: "damageShip r dmg s = Inr s'"
  shows "0 \<le> ship_hull (store s' r)" and "0 \<le> shieldStrength (store s' r)"
proof -
  from run obtain s2 where
    rsd: "randomSubsystemDamage r (snd (absorbDamage (store s r) dmg))
            (s\<lparr>store := (store s)(r := fst (absorbDamage (store s r) dmg))\<rparr>) = Inr s2"
    and s': "s' = checkDestruction r (emit (ShipDamaged r dmg) s2)"
    by (rule damageShip_Inr)
  show "0 \<le> ship_hull (store s' r)"
    unfolding s' by (rule checkDestruction_hull)
  have "shieldStrength (store s' r) = shieldStrength (store s2 r)"
    unfolding s' by (simp add: checkDestruction_shield)
  then show "0 \<le> shieldStrength (store s' r)"
    using randomSubsystemDamage_frame(10) [OF rsd, of r]
    by (simp add: absorbDamage_shield_nonneg)
qed

text \<open>
  C1.  For every state, every ship and every raw damage value: whenever \<open>damageShip\<close>
  returns, the ship's hull and shield strength are both at least 0; and it does
  return when the random stream is well formed.
\<close>

theorem C1_damageShip_nonneg:
  "(rand_ok s \<longrightarrow> (\<exists>s'. damageShip r dmg s = Inr s')) \<and>
   (damageShip r dmg s = Inr s' \<longrightarrow>
      0 \<le> ship_hull (store s' r) \<and> 0 \<le> shieldStrength (store s' r))"
  using damageShip_total [of s r dmg] damageShip_nonneg [of r dmg s s'] by blast

lemma skirmish_simps:
  "playerShip (skirmish rnd) = 0" "ships (skirmish rnd) = [Suc 0]"
  "rand (skirmish rnd) = rnd" "randPos (skirmish rnd) = 0"
  "events (skirmish rnd) = []" "currentTarget (skirmish rnd) = None"
  "projectiles (skirmish rnd) = []" "phaserBeams (skirmish rnd) = []"
  "commsLog (skirmish rnd) = []" "alertLevel (skirmish rnd) = Normal"
  by (simp_all add: skirmish_def addShip_def reset_def Let_def)

lemma skirmish_store:
  "store (skirmish rnd) 0 = (createShip ''player'')
                 \<lparr>name := ''USS Endeavour'', faction := Friendly,
                  maxVelocity := 8, ship_size := 25\<rparr>"
  "store (skirmish rnd) (Suc 0) = hostile1"
  by (simp_all add: skirmish_def addShip_def reset_def Let_def)

lemma rand_ok_skirmish: "rand_ok (skirmish (steady 0))" "rand_ok (skirmish (steady (1/2)))"
  by (simp_all add: rand_ok_def skirmish_simps steady_def)

theorem C1_damageShip_nonneg_witness:
  "rand_ok (skirmish (steady 0)) \<and>
   (\<exists>s'. damageShip 0 1000 (skirmish (steady 0)) = Inr s' \<and>
         0 \<le> ship_hull (store s' 0) \<and> 0 \<le> shieldStrength (store s' 0))"
proof -
  let ?s = "skirmish (steady 0)"
  note ok = rand_ok_skirmish(1)
  from C1_damageShip_nonneg [of ?s 0 1000, THEN conjunct1] ok
  obtain s' where run: "damageShip 0 1000 ?s = Inr s'" by blast
  from C1_damageShip_nonneg [of ?s 0 1000 s', THEN conjunct2] run
  have "0 \<le> ship_hull (store s' 0) \<and> 0 \<le> shieldStrength (store s' 0)" by blast
  with ok run show ?thesis by blast
qed

lemma checkDestruction_zero:
  "ship_hull (store (checkDestruction r s) r) = 0 \<longleftrightarrow> ship_hull (store s r) \<le> 0"
  by (simp add: checkDestruction_def Let_def)

lemma checkDestruction_npc:
  assumes "ship_hull (store s r) \<le> 0" and "ship_id (store s r) \<noteq> ''player''"
    and "distinct (map (\<lambda>a. ship_id (store s a)) (ships s))" and "r \<in> set (ships s)"
  shows "ships (checkDestruction r s) = remove1 r (ships s)"
    and "destroyedShips (events (checkDestruction r s)) = destroyedShips (events s) @ [r]"
proof -
  let ?s1 = "s\<lparr>store := (store s)(r := (store s r)\<lparr>ship_hull := 0\<rparr>)\<rparr>"
  have ids: "(\<lambda>a. ship_id (store ?s1 a)) = (\<lambda>a. ship_id (store s a))"
    by (rule ext) simp
  have d: "distinct (map (\<lambda>a. ship_id (store ?s1 a)) (ships ?s1))"
    using assms(3) by (simp only: ids) simp
  have m: "r \<in> set (ships ?s1)" using assms(4) by simp
  have idr: "ship_id (store ?s1 r) = ship_id (store s r)" by simp
  note rm = removeShip_listed [OF d m, unfolded idr]
  have cd: "checkDestruction r s =
      addCommsMessage ''TACTICAL'' (name (store s r) @ '' destroyed!'') InfoMsg
        (removeShip (ship_id (store s r)) ?s1)"
    using assms(1,2) by (simp add: checkDestruction_def Let_def)
  show "ships (checkDestruction r s) = remove1 r (ships s)"
    unfolding cd using rm(1) by simp
  show "destroyedShips (events (checkDestruction r s)) = destroyedShips (events s) @ [r]"
    unfolding cd using rm(2) by (simp add: events_addCommsMessage)
qed

lemma checkDestruction_player:
  assumes "ship_hull (store s r) \<le> 0" and "ship_id (store s r) = ''player''"
  shows "ships (checkDestruction r s) = ships s"
    and "playerShip (checkDestruction r s) = playerShip s"
    and "playerDestroyedEvents (events (checkDestruction r s))
           = playerDestroyedEvents (events s) @ [r]"
    and "destroyedShips (events (checkDestruction r s)) = destroyedShips (events s)"
    and "ship_id (store (checkDestruction r s) r) = ''player''"
  using assms by (simp_all add: checkDestruction_def Let_def events_addCommsMessage)

lemma getShip_player: "getShip (Some ''player'') s = Some (playerShip s)"
  by (simp add: getShip_def)

text \<open>
  C2.  When \<open>damageShip\<close> leaves a ship with hull 0: a ship of the ship list whose id is
  not \<open>player\<close> (ship ids being unique) is removed from the list by the same call and
  exactly one \<open>shipDestroyed\<close> event, for that ship, is emitted; for the player ship
  one \<open>playerDestroyed\<close> event is emitted, no ship is removed, and \<open>getShip\<close> still
  returns the player ship.
\<close>

theorem C2_destruction:
  assumes run: "damageShip r dmg s = Inr s'"
    and zero: "ship_hull (store s' r) = 0"
  shows "(ship_id (store s r) \<noteq> ''player'' \<and> r \<in> set (ships s) \<and>
          distinct (map (\<lambda>a. ship_id (store s a)) (ships s)) \<longrightarrow>
            ships s' = remove1 r (ships s) \<and> r \<notin> set (ships s') \<and>
            destroyedShips (events s') = destroyedShips (events s) @ [r]) \<and>
         (ship_id (store s r) = ''player'' \<and> r = playerShip s \<longrightarrow>
            playerDestroyedEvents (events s') = playerDestroyedEvents (events s) @ [r] \<and>
            destroyedShips (events s') = destroyedShips (events s) \<and>
            ships s' = ships s \<and>
            getShip (Some ''player'') s' = Some r \<and>
            ship_id (store s' r) = ''player'')"
proof -
  from run obtain s2 where
    rsd: "randomSubsystemDamage r (snd (absorbDamage (store s r) dmg))
            (s\<lparr>store := (store s)(r := fst (absorbDamage (store s r) dmg))\<rparr>) = Inr s2"
    and s': "s' = checkDestruction r (emit (ShipDamaged r dmg) s2)"
    by (rule damageShip_Inr)
  let ?s3 = "emit (ShipDamaged r dmg) s2"
  note fr = randomSubsystemDamage_frame [OF rsd]
  have ids: "(\<lambda>a. ship_id (store ?s3 a)) = (\<lambda>a. ship_id (store s a))"
    using fr(8) by (auto simp: absorbDamage_fields)
  have idr: "ship_id (store ?s3 r) = ship_id (store s r)"
    using fun_cong [OF ids, of r] .
  have low: "ship_hull (store ?s3 r) \<le> 0"
    using zero unfolding s' by (simp only: checkDestruction_zero)
  have sh: "ships ?s3 = ships s" and pl: "playerShip ?s3 = playerShip s"
    using fr(1,2) by simp_all
  have ds: "destroyedShips (events ?s3) = destroyedShips (events s)"
    and pd: "playerDestroyedEvents (events ?s3) = playerDestroyedEvents (events s)"
    using fr(11,12) by simp_all
  show ?thesis
  proof (intro conjI impI)
    assume h: "ship_id (store s r) \<noteq> ''player'' \<and> r \<in> set (ships s) \<and>
               distinct (map (\<lambda>a. ship_id (store s a)) (ships s))"
    from h have d: "distinct (map (\<lambda>a. ship_id (store ?s3 a)) (ships ?s3))"
      unfolding ids sh by blast
    have dr: "distinct (ships s)" using h by (simp add: distinct_map)
    from h have n: "ship_id (store ?s3 r) \<noteq> ''player''" unfolding idr by blast
    from h have m: "r \<in> set (ships ?s3)" unfolding sh by blast
    note cd = checkDestruction_npc [OF low n d m]
    show "ships s' = remove1 r (ships s)" unfolding s' cd(1) sh ..
    then show "r \<notin> set (ships s')" using dr by simp
    show "destroyedShips (events s') = destroyedShips (events s) @ [r]"
      unfolding s' cd(2) ds ..
  next
    assume h: "ship_id (store s r) = ''player'' \<and> r = playerShip s"
    then have p: "ship_id (store ?s3 r) = ''player''" unfolding idr by blast
    note cd = checkDestruction_player [OF low p]
    show "playerDestroyedEvents (events s') = playerDestroyedEvents (events s) @ [r]"
      unfolding s' cd(3) pd ..
    show "destroyedShips (events s') = destroyedShips (events s)"
      unfolding s' cd(4) ds ..
    show "ships s' = ships s" unfolding s' cd(1) sh ..
    show "getShip (Some ''player'') s' = Some r"
      unfolding s' getShip_player cd(2) pl using h by simp
    show "ship_id (store s' r) = ''player''" unfolding s' by (rule cd(5))
  qed
qed


lemma damageShip_hull:
  assumes "damageShip r dmg s = Inr s'"
  shows "ship_hull (store s' r) = max 0 (ship_hull (store s r) - snd (absorbDamage (store s r) dmg))"
proof -
  from assms obtain s2 where
    rsd: "randomSubsystemDamage r (snd (absorbDamage (store s r) dmg))
            (s\<lparr>store := (store s)(r := fst (absorbDamage (store s r) dmg))\<rparr>) = Inr s2"
    and s': "s' = checkDestruction r (emit (ShipDamaged r dmg) s2)"
    by (rule damageShip_Inr)
  have "ship_hull (store s2 r) = ship_hull (store s r) - snd (absorbDamage (store s r) dmg)"
    using randomSubsystemDamage_frame(9) [OF rsd, of r]
    by (simp add: absorbDamage_def Let_def)
  then show ?thesis
    unfolding s' by (simp add: checkDestruction_def Let_def)
qed

lemma skirmish_hit:
  "snd (absorbDamage (store (skirmish rnd) 0) 1000) = 900"
  "snd (absorbDamage (store (skirmish rnd) (Suc 0)) 1000) = 900"
  "ship_hull (store (skirmish rnd) 0) = 100"
  "ship_hull (store (skirmish rnd) (Suc 0)) = 100"
  "ship_id (store (skirmish rnd) 0) = ''player''"
  "ship_id (store (skirmish rnd) (Suc 0)) = ''h1''"
  by (simp_all add: skirmish_store hostile1_def absorbDamage_def createShip_def
                    createSubsystems_def Let_def)

theorem C2_destruction_witness:
  "(\<exists>s'. damageShip (Suc 0) 1000 (skirmish (steady (1/2))) = Inr s' \<and>
         ship_hull (store s' (Suc 0)) = 0 \<and> ships s' = [] \<and>
         destroyedShips (events s') = [Suc 0]) \<and>
   (\<exists>s'. damageShip 0 1000 (skirmish (steady (1/2))) = Inr s' \<and>
         ship_hull (store s' 0) = 0 \<and> playerDestroyedEvents (events s') = [0] \<and>
         ships s' = [Suc 0] \<and> getShip (Some ''player'') s' = Some 0)"
proof (rule conjI)
  let ?s = "skirmish (steady (1/2))"
  from damageShip_total [OF rand_ok_skirmish(2)]
  obtain s' where run: "damageShip (Suc 0) 1000 ?s = Inr s'" by blast
  have zero: "ship_hull (store s' (Suc 0)) = 0"
    by (simp add: damageShip_hull [OF run] skirmish_hit)
  from C2_destruction [OF run zero]
  have "ships s' = [] \<and> destroyedShips (events s') = [Suc 0]"
    by (simp add: skirmish_hit skirmish_simps)
  with run zero show "\<exists>s'. damageShip (Suc 0) 1000 ?s = Inr s' \<and>
         ship_hull (store s' (Suc 0)) = 0 \<and> ships s' = [] \<and>
         destroyedShips (events s') = [Suc 0]" by blast
next
  let ?s = "skirmish (steady (1/2))"
  from damageShip_total [OF rand_ok_skirmish(2)]
  obtain s' where run: "damageShip 0 1000 ?s = Inr s'" by blast
  have zero: "ship_hull (store s' 0) = 0"
    by (simp add: damageShip_hull [OF run] skirmish_hit)
  from C2_destruction [OF run zero]
  have "playerDestroyedEvents (events s') = [0] \<and> ships s' = [Suc 0] \<and>
        getShip (Some ''player'') s' = Some 0"
    by (simp add: skirmish_hit skirmish_simps)
  with run zero show "\<exists>s'. damageShip 0 1000 ?s = Inr s' \<and>
         ship_hull (store s' 0) = 0 \<and> playerDestroyedEvents (events s') = [0] \<and>
         ships s' = [Suc 0] \<and> getShip (Some ''player'') s' = Some 0" by blast
qed

section \<open>Projectiles\<close>

lemma damagedShips_append [simp]:
  "damagedShips (xs @ ys) = damagedShips xs @ damagedShips ys"
  by (induction xs rule: damagedShips.induct) auto

lemma randomSubsystemDamage_frame2:
  assumes "randomSubsystemDamage r d s = Inr s'"
  shows "damagedShips (events s') = damagedShips (events s)"
    and "a \<noteq> r \<Longrightarrow> store s' a = store s a"
  using assms unfolding randomSubsystemDamage_def random_def Let_def
  by (auto simp: events_addCommsMessage split: if_splits property.splits)

lemma removeShip_events:
  "damagedShips (events (removeShip i s)) = damagedShips (events s)"
  by (simp add: removeShip_def Let_def split: option.splits)

lemma checkDestruction_frame:
  "projectiles (checkDestruction r s) = projectiles s"
  "rand (checkDestruction r s) = rand s"
  "damagedShips (events (checkDestruction r s)) = damagedShips (events s)"
  "a \<noteq> r \<Longrightarrow> store (checkDestruction r s) a = store s a"
  by (simp_all add: checkDestruction_def Let_def events_addCommsMessage removeShip_events)

lemma damageShip_frame:
  assumes "damageShip r dmg s = Inr s'"
  shows "projectiles s' = projectiles s"
    and "rand s' = rand s"
    and "damagedShips (events s') = damagedShips (events s) @ [(r, dmg)]"
    and "a \<noteq> r \<Longrightarrow> store s' a = store s a"
proof -
  from assms obtain s2 where
    rsd: "randomSubsystemDamage r (snd (absorbDamage (store s r) dmg))
            (s\<lparr>store := (store s)(r := fst (absorbDamage (store s r) dmg))\<rparr>) = Inr s2"
    and s': "s' = checkDestruction r (emit (ShipDamaged r dmg) s2)"
    by (rule damageShip_Inr)
  note fr = randomSubsystemDamage_frame [OF rsd] randomSubsystemDamage_frame2 [OF rsd]
  show "projectiles s' = projectiles s"
    unfolding s' using fr(5) by (simp add: checkDestruction_frame)
  show "rand s' = rand s"
    unfolding s' using fr(4) by (simp add: checkDestruction_frame)
  show "damagedShips (events s') = damagedShips (events s) @ [(r, dmg)]"
    unfolding s' using fr(13) by (simp add: checkDestruction_frame)
  show "a \<noteq> r \<Longrightarrow> store s' a = store s a"
    unfolding s' using fr(14) [of a] by (simp add: checkDestruction_frame)
qed

lemma play_simps [simp]:
  "store (play c s) = store s" "projectiles (play c s) = projectiles s"
  "rand (play c s) = rand s" "damagedShips (events (play c s)) = damagedShips (events s)"
  "ships (play c s) = ships s" "playerShip (play c s) = playerShip s"
  "alertLevel (play c s) = alertLevel s" "phaserBeams (play c s) = phaserBeams s"
  by (simp_all add: play_def)


lemma collides_cong: "store s1 = store s \<Longrightarrow> collides s1 = collides s"
  by (intro ext) (simp add: collides_def)




lemma hypot_axis [simp]: "hypot a 0 = \<bar>a\<bar>" "hypot 0 a = \<bar>a\<bar>"
  by (simp_all add: hypot_def)




lemma setProjectiles_fields [simp]:
  "store (setProjectiles ps s) = store s" "ships (setProjectiles ps s) = ships s"
  "playerShip (setProjectiles ps s) = playerShip s"
  "projectiles (setProjectiles ps s) = ps"
  "setProjectiles ps (setProjectiles qs s) = setProjectiles ps s"
  by (simp_all add: setProjectiles_def)





lemma finishSweep_simps [simp]:
  "finishSweep (Inl e) = Inl e" "finishSweep (Inr (kept, w)) = Inr (setProjectiles kept w)"
  by (simp_all add: finishSweep_def)

lemma collides_setProjectiles [simp]: "collides (setProjectiles ps s) = collides s"
  by (rule collides_cong) simp


lemma firstHit_setProjectiles [simp]: "firstHit (setProjectiles ps s) q = firstHit s q"
  by (simp add: firstHit_def targetsOf_def)















section \<open>NPC behaviour\<close>

text \<open>
  C4.  For a hostile ship whose hull is below 30 percent of its maximum hull,
  \<open>updateNPCAI\<close> sets the AI state to flee, whatever the positions of the ship and
  of the player are.
\<close>

theorem C4_flee_overrides:
  assumes "faction (store s r) = Hostile"
    and "maxHull (store s r) \<noteq> 0"
    and "ship_hull (store s r) / maxHull (store s r) < 0.3"
  shows "aiState (store (updateNPCAI r s) r) = Flee"
  using assms by (simp add: updateNPCAI_def js_div_less_def Let_def)

theorem C4_flee_overrides_witness:
  "faction (store (wounded (steady 0)) (Suc 0)) = Hostile \<and>
   maxHull (store (wounded (steady 0)) (Suc 0)) \<noteq> 0 \<and>
   ship_hull (store (wounded (steady 0)) (Suc 0)) / maxHull (store (wounded (steady 0)) (Suc 0)) < 0.3 \<and>
   hypot (ship_x (store (wounded (steady 0)) 0) - ship_x (store (wounded (steady 0)) (Suc 0)))
         (ship_y (store (wounded (steady 0)) 0) - ship_y (store (wounded (steady 0)) (Suc 0))) < 800 \<and>
   aiState (store (updateNPCAI (Suc 0) (wounded (steady 0))) (Suc 0)) = Flee"
proof -
  let ?s = "wounded (steady 0)"
  have a: "faction (store ?s (Suc 0)) = Hostile"
    and b: "maxHull (store ?s (Suc 0)) \<noteq> 0"
    and c: "ship_hull (store ?s (Suc 0)) / maxHull (store ?s (Suc 0)) < 0.3"
    and d: "hypot (ship_x (store ?s 0) - ship_x (store ?s (Suc 0)))
                  (ship_y (store ?s 0) - ship_y (store ?s (Suc 0))) < 800"
    by (simp_all add: wounded_def hostile1_def createShip_def skirmish_store)
  from a b c d C4_flee_overrides [OF a b c] show ?thesis by blast
qed

section \<open>Alert level\<close>

lemma nearest_fold:
  "fold (\<lambda>r nearest.
             let shp = store s r; player = store s (playerShip s)
             in if faction shp = Hostile then
                  (let dist = hypot (ship_x shp - ship_x player) (ship_y shp - ship_y player)
                   in Some (case nearest of None \<Rightarrow> dist | Some m \<Rightarrow> min m dist))
                else nearest) rs acc
   = fold (\<lambda>d nearest. Some (case nearest of None \<Rightarrow> d | Some m \<Rightarrow> min m d))
       (map (\<lambda>r. hypot (ship_x (store s r) - ship_x (store s (playerShip s)))
                     (ship_y (store s r) - ship_y (store s (playerShip s))))
         (filter (\<lambda>r. faction (store s r) = Hostile) rs)) acc"
  by (induction rs arbitrary: acc) (simp_all add: Let_def)

lemma below_fold:
  "distBelow (fold (\<lambda>d nearest. Some (case nearest of None \<Rightarrow> d | Some m \<Rightarrow> min m d)) ds acc) c
     \<longleftrightarrow> distBelow acc c \<or> (\<exists>d\<in>set ds. d < c)"
  by (induction ds arbitrary: acc) (auto simp: distBelow_def split: option.splits)

lemma above_fold:
  "distAbove (fold (\<lambda>d nearest. Some (case nearest of None \<Rightarrow> d | Some m \<Rightarrow> min m d)) ds acc) c
     \<longleftrightarrow> distAbove acc c \<and> (\<forall>d\<in>set ds. d > c)"
  by (induction ds arbitrary: acc) (auto simp: distAbove_def split: option.splits)

lemma below_nearest:
  "distBelow (nearestHostileDistance s) c \<longleftrightarrow> (\<exists>d\<in>set (hostileDistances s). d < c)"
  unfolding nearestHostileDistance_def hostileDistances_def nearest_fold below_fold
  by (simp add: distBelow_def)

lemma above_nearest:
  "distAbove (nearestHostileDistance s) c \<longleftrightarrow> (\<forall>d\<in>set (hostileDistances s). d > c)"
  unfolding nearestHostileDistance_def hostileDistances_def nearest_fold above_fold
  by (simp add: distAbove_def)

lemma alertLevel_setAlertLevel [simp]: "alertLevel (setAlertLevel l s) = l"
  by (simp add: setAlertLevel_def)

lemma setAlertLevel_same: "setAlertLevel (alertLevel s) s = s"
  by (simp add: setAlertLevel_def)

lemma alertChanges_append [simp]:
  "alertChanges (xs @ ys) = alertChanges xs @ alertChanges ys"
  by (induction xs rule: alertChanges.induct) auto

lemma setAlertLevel_events:
  "alertLevel s \<noteq> l \<Longrightarrow>
   alertChanges (events (setAlertLevel l s)) = alertChanges (events s) @ [l]"
  by (simp add: setAlertLevel_def events_addCommsMessage)

lemma alertChanges_play [simp]:
  "alertChanges (events (play c s)) = alertChanges (events s)"
  by (simp add: play_def)

lemma distBelow_mono: "distBelow d a \<Longrightarrow> a \<le> b \<Longrightarrow> distBelow d b"
  by (auto simp: distBelow_def split: option.splits)

lemma checkAlertLevel_level:
  "alertLevel (checkAlertLevel s) =
     (if distBelow (nearestHostileDistance s) 500 then Red
      else if distBelow (nearestHostileDistance s) 1000
           then (if alertLevel s = Red then Red else Yellow)
      else if distAbove (nearestHostileDistance s) 1500 then Normal
      else alertLevel s)"
  by (simp add: checkAlertLevel_def Let_def)

lemma checkAlertLevel_change:
  "checkAlertLevel s = s \<or>
   (alertLevel (checkAlertLevel s) \<noteq> alertLevel s \<and>
    alertChanges (events (checkAlertLevel s))
      = alertChanges (events s) @ [alertLevel (checkAlertLevel s)])"
  by (auto simp: checkAlertLevel_def Let_def setAlertLevel_events)

lemma checkAlertLevel_cases:
  fixes s defines "d \<equiv> nearestHostileDistance s" and "s' \<equiv> checkAlertLevel s"
  shows "distBelow d 500 \<Longrightarrow> alertLevel s' = Red"
    and "\<not> distBelow d 500 \<Longrightarrow> distBelow d 1000 \<Longrightarrow>
           alertLevel s' = (if alertLevel s = Red then Red else Yellow)"
    and "\<not> distBelow d 1000 \<Longrightarrow> distAbove d 1500 \<Longrightarrow> alertLevel s' = Normal"
    and "\<not> distBelow d 1000 \<Longrightarrow> \<not> distAbove d 1500 \<Longrightarrow> alertLevel s' = alertLevel s"
    and "alertLevel s' = alertLevel s \<Longrightarrow> s' = s"
    and "alertLevel s' \<noteq> alertLevel s \<Longrightarrow>
           alertChanges (events s') = alertChanges (events s) @ [alertLevel s']"
proof -
  show "distBelow d 500 \<Longrightarrow> alertLevel s' = Red"
    unfolding d_def s'_def by (simp add: checkAlertLevel_level)
  show "\<not> distBelow d 500 \<Longrightarrow> distBelow d 1000 \<Longrightarrow>
           alertLevel s' = (if alertLevel s = Red then Red else Yellow)"
    unfolding d_def s'_def by (simp add: checkAlertLevel_level)
  show "\<not> distBelow d 1000 \<Longrightarrow> distAbove d 1500 \<Longrightarrow> alertLevel s' = Normal"
    unfolding d_def s'_def
    using distBelow_mono [of "nearestHostileDistance s" 500 1000]
    by (auto simp: checkAlertLevel_level)
  show "\<not> distBelow d 1000 \<Longrightarrow> \<not> distAbove d 1500 \<Longrightarrow> alertLevel s' = alertLevel s"
    unfolding d_def s'_def
    using distBelow_mono [of "nearestHostileDistance s" 500 1000]
    by (auto simp: checkAlertLevel_level)
  show "alertLevel s' = alertLevel s \<Longrightarrow> s' = s"
    unfolding s'_def using checkAlertLevel_change [of s] by blast
  show "alertLevel s' \<noteq> alertLevel s \<Longrightarrow>
           alertChanges (events s') = alertChanges (events s) @ [alertLevel s']"
    unfolding s'_def using checkAlertLevel_change [of s] by force
qed

text \<open>
  C5.  The alert check of a tick, by the distances from the player to the hostile
  ships: some distance below 500 gives red; none below 500 but some below 1000 gives
  yellow, except that red stays red; all above 1500 (or no hostile ship) gives
  normal; otherwise the level is kept.  When the level does not change, the whole
  state is unchanged (no event, message or sound), and a change emits exactly one
  \<open>alertChanged\<close> event.  \<open>setAlertLevel\<close> with the current level changes nothing.
\<close>

theorem C5_alert_automation:
  "(let s' = checkAlertLevel s; ds = set (hostileDistances s)
    in ((\<exists>d\<in>ds. d < 500) \<longrightarrow> alertLevel s' = Red) \<and>
       ((\<forall>d\<in>ds. 500 \<le> d) \<and> (\<exists>d\<in>ds. d < 1000) \<longrightarrow>
           alertLevel s' = (if alertLevel s = Red then Red else Yellow)) \<and>
       ((\<forall>d\<in>ds. 1500 < d) \<longrightarrow> alertLevel s' = Normal) \<and>
       ((\<forall>d\<in>ds. 1000 \<le> d) \<and> (\<exists>d\<in>ds. d \<le> 1500) \<longrightarrow> alertLevel s' = alertLevel s) \<and>
       (alertLevel s' = alertLevel s \<longrightarrow> s' = s) \<and>
       (alertLevel s' \<noteq> alertLevel s \<longrightarrow>
           alertChanges (events s') = alertChanges (events s) @ [alertLevel s'])) \<and>
   setAlertLevel (alertLevel s) s = s"
proof -
  let ?d = "nearestHostileDistance s"
  let ?ds = "set (hostileDistances s)"
  note cs = checkAlertLevel_cases [of s]
  have 1: "(\<exists>d\<in>?ds. d < 500) \<longrightarrow> alertLevel (checkAlertLevel s) = Red"
    using cs(1) by (simp add: below_nearest)
  have 2: "(\<forall>d\<in>?ds. 500 \<le> d) \<and> (\<exists>d\<in>?ds. d < 1000) \<longrightarrow>
           alertLevel (checkAlertLevel s) = (if alertLevel s = Red then Red else Yellow)"
    using cs(2) by (simp add: below_nearest not_less)
  have 3: "(\<forall>d\<in>?ds. 1500 < d) \<longrightarrow> alertLevel (checkAlertLevel s) = Normal"
  proof
    assume a: "\<forall>d\<in>?ds. 1500 < d"
    then have "\<not> distBelow ?d 1000" unfolding below_nearest by fastforce
    moreover have "distAbove ?d 1500" unfolding above_nearest using a by simp
    ultimately show "alertLevel (checkAlertLevel s) = Normal" by (rule cs(3))
  qed
  have 4: "(\<forall>d\<in>?ds. 1000 \<le> d) \<and> (\<exists>d\<in>?ds. d \<le> 1500) \<longrightarrow>
           alertLevel (checkAlertLevel s) = alertLevel s"
  proof
    assume a: "(\<forall>d\<in>?ds. 1000 \<le> d) \<and> (\<exists>d\<in>?ds. d \<le> 1500)"
    then have "\<not> distBelow ?d 1000" unfolding below_nearest by fastforce
    moreover have "\<not> distAbove ?d 1500" unfolding above_nearest using a by fastforce
    ultimately show "alertLevel (checkAlertLevel s) = alertLevel s" by (rule cs(4))
  qed
  from 1 2 3 4 cs(5,6) show ?thesis
    unfolding Let_def by (simp add: setAlertLevel_same)
qed

lemma contact_distances: "hostileDistances (contact d l) = [\<bar>d\<bar>]"
  by (simp add: hostileDistances_def contact_def addShip_def reset_def hostile1_def
        createShip_def Let_def)

lemma contact_alert: "alertLevel (contact d l) = l"
  by (simp add: contact_def)

theorem C5_alert_automation_witness:
  "alertLevel (checkAlertLevel (contact 300 Normal)) = Red \<and>
   alertLevel (checkAlertLevel (contact 700 Normal)) = Yellow \<and>
   checkAlertLevel (contact 700 Red) = contact 700 Red \<and>
   checkAlertLevel (contact 1200 Red) = contact 1200 Red \<and>
   alertLevel (checkAlertLevel (contact 2000 Yellow)) = Normal \<and>
   alertChanges (events (checkAlertLevel (contact 2000 Yellow)))
     = alertChanges (events (contact 2000 Yellow)) @ [Normal]"
proof -
  have 1: "alertLevel (checkAlertLevel (contact 300 Normal)) = Red"
    using C5_alert_automation [of "contact 300 Normal"]
    by (simp add: Let_def contact_distances)
  have 2: "alertLevel (checkAlertLevel (contact 700 Normal)) = Yellow"
    using C5_alert_automation [of "contact 700 Normal"]
    by (simp add: Let_def contact_distances contact_alert)
  have 3: "checkAlertLevel (contact 700 Red) = contact 700 Red"
    using C5_alert_automation [of "contact 700 Red"]
    by (simp add: Let_def contact_distances contact_alert)
  have 4: "checkAlertLevel (contact 1200 Red) = contact 1200 Red"
    using C5_alert_automation [of "contact 1200 Red"]
    by (simp add: Let_def contact_distances contact_alert)
  have 5: "alertLevel (checkAlertLevel (contact 2000 Yellow)) = Normal"
    using C5_alert_automation [of "contact 2000 Yellow"]
    by (simp add: Let_def contact_distances)
  have 6: "alertChanges (events (checkAlertLevel (contact 2000 Yellow)))
     = alertChanges (events (contact 2000 Yellow)) @ [Normal]"
    using C5_alert_automation [of "contact 2000 Yellow"] 5
    by (simp add: Let_def contact_distances contact_alert)
  from 1 2 3 4 5 6 show ?thesis by blast
qed

section \<open>Headings\<close>

lemma js_rem_bounds:
  assumes "0 < b"
  shows "- b < js_rem a b" and "js_rem a b < b" and "0 \<le> a \<Longrightarrow> 0 \<le> js_rem a b"
proof -
  define t where "t = a / b - of_int (if 0 \<le> a / b then \<lfloor>a / b\<rfloor> else \<lceil>a / b\<rceil>)"
  have alt: "js_rem a b = b * t"
    using assms by (simp add: js_rem_def Let_def t_def right_diff_distrib)
  have lo: "- 1 < t" unfolding t_def by (cases "0 \<le> a / b") (simp_all, linarith+)
  have hi: "t < 1" unfolding t_def by (cases "0 \<le> a / b") (simp_all, linarith+)
  have "b * (- 1) < b * t" using lo assms by (rule mult_strict_left_mono)
  then show "- b < js_rem a b" by (simp add: alt)
  have "b * t < b * 1" using hi assms by (rule mult_strict_left_mono)
  then show "js_rem a b < b" by (simp add: alt)
  show "0 \<le> js_rem a b" if "0 \<le> a"
  proof -
    from that assms have "0 \<le> a / b" by simp
    then have "0 \<le> t" unfolding t_def by simp
    then show ?thesis using assms by (simp add: alt)
  qed
qed

lemma normalise_range:
  "0 \<le> js_rem (js_rem h 360 + 360) 360" "js_rem (js_rem h 360 + 360) 360 < 360"
proof -
  have "- 360 < js_rem h 360" by (rule js_rem_bounds) simp
  then have "0 \<le> js_rem h 360 + 360" by simp
  then show "0 \<le> js_rem (js_rem h 360 + 360) 360" by (intro js_rem_bounds(3)) simp_all
  show "js_rem (js_rem h 360 + 360) 360 < 360" by (rule js_rem_bounds) simp
qed

lemma headingUp_nonneg: "0 \<le> headingUp h"
proof (induction h rule: headingUp.induct)
  case (1 h)
  then show ?case by (subst headingUp.simps) auto
qed

lemma headingUp_less: "h < 360 \<Longrightarrow> headingUp h < 360"
proof (induction h rule: headingUp.induct)
  case (1 h)
  then show ?case by (subst headingUp.simps) auto
qed

lemma headingDown_less: "headingDown h < 360"
proof (induction h rule: headingDown.induct)
  case (1 h)
  then show ?case by (subst headingDown.simps) auto
qed

lemma headingDown_nonneg: "0 \<le> h \<Longrightarrow> 0 \<le> headingDown h"
proof (induction h rule: headingDown.induct)
  case (1 h)
  then show ?case by (subst headingDown.simps) auto
qed

lemma heading_loops_range:
  "0 \<le> headingDown (headingUp h)" "headingDown (headingUp h) < 360"
  by (simp_all add: headingDown_nonneg headingUp_nonneg headingDown_less)

section \<open>What the damage pipeline leaves alone\<close>

lemma randomSubsystemDamage_motion:
  assumes "randomSubsystemDamage r d s = Inr s'"
  shows "heading (store s' a) = heading (store s a)"
    and "velocity (store s' a) = velocity (store s a)"
    and "maxVelocity (store s' a) = maxVelocity (store s a)"
    and "ship_x (store s' a) = ship_x (store s a)"
    and "ship_y (store s' a) = ship_y (store s a)"
    and "phaserBeams s' = phaserBeams s"
  using assms unfolding randomSubsystemDamage_def random_def Let_def
  by (auto split: if_splits property.splits)

lemma checkDestruction_motion:
  "heading (store (checkDestruction r s) a) = heading (store s a)"
  "velocity (store (checkDestruction r s) a) = velocity (store s a)"
  "maxVelocity (store (checkDestruction r s) a) = maxVelocity (store s a)"
  "ship_x (store (checkDestruction r s) a) = ship_x (store s a)"
  "ship_y (store (checkDestruction r s) a) = ship_y (store s a)"
  "phaserBeams (checkDestruction r s) = phaserBeams s"
  "playerShip (checkDestruction r s) = playerShip s"
  by (simp_all add: checkDestruction_def Let_def)

lemma absorbDamage_motion:
  "heading (fst (absorbDamage shp dmg)) = heading shp"
  "velocity (fst (absorbDamage shp dmg)) = velocity shp"
  "maxVelocity (fst (absorbDamage shp dmg)) = maxVelocity shp"
  "ship_x (fst (absorbDamage shp dmg)) = ship_x shp"
  "ship_y (fst (absorbDamage shp dmg)) = ship_y shp"
  by (simp_all add: absorbDamage_def Let_def)

lemma damageShip_motion:
  assumes "damageShip r dmg s = Inr s'"
  shows "heading (store s' a) = heading (store s a)"
    and "velocity (store s' a) = velocity (store s a)"
    and "maxVelocity (store s' a) = maxVelocity (store s a)"
    and "ship_x (store s' a) = ship_x (store s a)"
    and "ship_y (store s' a) = ship_y (store s a)"
    and "phaserBeams s' = phaserBeams s"
    and "playerShip s' = playerShip s"
proof -
  from assms obtain s2 where
    rsd: "randomSubsystemDamage r (snd (absorbDamage (store s r) dmg))
            (s\<lparr>store := (store s)(r := fst (absorbDamage (store s r) dmg))\<rparr>) = Inr s2"
    and s': "s' = checkDestruction r (emit (ShipDamaged r dmg) s2)"
    by (rule damageShip_Inr)
  note m = randomSubsystemDamage_motion [OF rsd]
  show "heading (store s' a) = heading (store s a)"
    unfolding s' using m(1) by (simp add: checkDestruction_motion absorbDamage_motion)
  show "velocity (store s' a) = velocity (store s a)"
    unfolding s' using m(2) by (simp add: checkDestruction_motion absorbDamage_motion)
  show "maxVelocity (store s' a) = maxVelocity (store s a)"
    unfolding s' using m(3) by (simp add: checkDestruction_motion absorbDamage_motion)
  show "ship_x (store s' a) = ship_x (store s a)"
    unfolding s' using m(4) by (simp add: checkDestruction_motion absorbDamage_motion)
  show "ship_y (store s' a) = ship_y (store s a)"
    unfolding s' using m(5) by (simp add: checkDestruction_motion absorbDamage_motion)
  show "phaserBeams s' = phaserBeams s"
    unfolding s' using m(6) by (simp add: checkDestruction_motion)
  show "playerShip s' = playerShip s"
    unfolding s' using randomSubsystemDamage_frame(2) [OF rsd]
    by (simp add: checkDestruction_motion)
qed

section \<open>NPC fire\<close>

lemma npcFireAtPlayer_idle:
  assumes "getSystemEffectiveness (store s r) weapons \<le> 0 \<or> \<not> distToPlayer r s < 400"
  shows "npcFireAtPlayer r s = Inr s"
  using assms by (auto simp: npcFireAtPlayer_def distToPlayer_def Let_def)

lemma npcFireAtPlayer_fires:
  assumes "0 < getSystemEffectiveness (store s r) weapons" and "distToPlayer r s < 400"
    and "npcFireAtPlayer r s = Inr s'"
  shows "damagedShips (events s') = damagedShips (events s) @
           [(playerShip s, 10 * getSystemEffectiveness (store s r) weapons)]"
    and "phaserBeams s' = phaserBeams s @ [npcBeam r s]"
proof -
  let ?s1 = "s\<lparr>phaserBeams := phaserBeams s @ [npcBeam r s]\<rparr>"
  let ?d = "10 * getSystemEffectiveness (store s r) weapons"
  from assms obtain s2 where run: "damageShip (playerShip s) ?d ?s1 = Inr s2"
    and s': "s' = play ''hullHit'' s2"
    by (auto simp: npcFireAtPlayer_def distToPlayer_def npcBeam_def Let_def split: sum.splits)
  show "damagedShips (events s') = damagedShips (events s) @ [(playerShip s, ?d)]"
    unfolding s' using damageShip_frame(3) [OF run] by simp
  show "phaserBeams s' = phaserBeams s @ [npcBeam r s]"
    unfolding s' using damageShip_motion(6) [OF run] by simp
qed

lemma npcFireAtPlayer_total:
  assumes "rand_ok s"
  shows "\<exists>s'. npcFireAtPlayer r s = Inr s'"
proof -
  let ?s1 = "s\<lparr>phaserBeams := phaserBeams s @ [npcBeam r s]\<rparr>"
  have "rand_ok ?s1" using assms by (simp add: rand_ok_def)
  from damageShip_total [OF this]
  obtain s2 where "damageShip (playerShip s)
      (10 * getSystemEffectiveness (store s r) weapons) ?s1 = Inr s2" by blast
  then show ?thesis
    by (simp add: npcFireAtPlayer_def npcBeam_def Let_def)
qed

lemma npcFireAtPlayer_frame:
  assumes "npcFireAtPlayer r s = Inr s'"
  shows "heading (store s' a) = heading (store s a)"
    and "velocity (store s' a) = velocity (store s a)"
    and "maxVelocity (store s' a) = maxVelocity (store s a)"
    and "a \<noteq> playerShip s \<Longrightarrow> store s' a = store s a"
    and "playerShip s' = playerShip s"
    and "rand s' = rand s"
proof -
  let ?s1 = "s\<lparr>phaserBeams := phaserBeams s @ [npcBeam r s]\<rparr>"
  let ?d = "10 * getSystemEffectiveness (store s r) weapons"
  from assms consider "s' = s"
    | s2 where "damageShip (playerShip s) ?d ?s1 = Inr s2" "s' = play ''hullHit'' s2"
    by (auto simp: npcFireAtPlayer_def npcBeam_def Let_def split: sum.splits if_splits)
  then have "(heading (store s' a) = heading (store s a) \<and>
             velocity (store s' a) = velocity (store s a) \<and>
             maxVelocity (store s' a) = maxVelocity (store s a) \<and>
             playerShip s' = playerShip s \<and> rand s' = rand s) \<and>
            (a \<noteq> playerShip s \<longrightarrow> store s' a = store s a)"
  proof cases
    case 1
    then show ?thesis by simp
  next
    case 2
    note m = damageShip_motion [OF 2(1)] damageShip_frame [OF 2(1)]
    show ?thesis unfolding 2(2) using m by simp
  qed
  then show "heading (store s' a) = heading (store s a)"
    and "velocity (store s' a) = velocity (store s a)"
    and "maxVelocity (store s' a) = maxVelocity (store s a)"
    and "a \<noteq> playerShip s \<Longrightarrow> store s' a = store s a"
    and "playerShip s' = playerShip s"
    and "rand s' = rand s"
    by blast+
qed

section \<open>NPC movement\<close>

lemma setVelocity_simps [simp]:
  "heading (store (setVelocity r v s) a) = heading (store s a)"
  "maxVelocity (store (setVelocity r v s) a) = maxVelocity (store s a)"
  "subsystems (store (setVelocity r v s) a) = subsystems (store s a)"
  "ship_x (store (setVelocity r v s) a) = ship_x (store s a)"
  "ship_y (store (setVelocity r v s) a) = ship_y (store s a)"
  "velocity (store (setVelocity r v s) r) = v"
  "playerShip (setVelocity r v s) = playerShip s"
  "events (setVelocity r v s) = events s"
  "rand (setVelocity r v s) = rand s"
  "randPos (setVelocity r v s) = randPos s"
  by (simp_all add: setVelocity_def)

lemma setVelocity_derived [simp]:
  "getSystemEffectiveness (store (setVelocity r v s) a) sys
     = getSystemEffectiveness (store s a) sys"
  "distToPlayer a (setVelocity r v s) = distToPlayer a s"
  by (simp_all add: getSystemEffectiveness_def distToPlayer_def)

lemma selectTarget_patrol:
  assumes "selectTarget r e s = Inr (tgt, s1)" and "aiState (store s r) = Patrol"
  shows "tgt \<noteq> None \<longleftrightarrow> patrolPoints (store s r) \<noteq> []"
    and "heading (store s1 a) = heading (store s a)"
    and "maxVelocity (store s1 a) = maxVelocity (store s a)"
    and "subsystems (store s1 a) = subsystems (store s a)"
    and "velocity (store s1 r) =
           (if patrolPoints (store s r) \<noteq> [] then maxVelocity (store s r) * 0.5 * e else 0)"
    and "events s1 = events s"
  using assms unfolding selectTarget_def Let_def
  by (auto split: if_splits prod.splits)

lemma selectTarget_approach:
  assumes "selectTarget r e s = Inr (tgt, s1)" and "aiState (store s r) = Approach"
  shows "tgt \<noteq> None \<longleftrightarrow> target (store s r) = Some ''player''"
    and "heading (store s1 a) = heading (store s a)"
    and "maxVelocity (store s1 a) = maxVelocity (store s a)"
    and "subsystems (store s1 a) = subsystems (store s a)"
    and "velocity (store s1 r) =
           (if target (store s r) = Some ''player'' then maxVelocity (store s r) * 0.8 * e
            else velocity (store s r))"
    and "events s1 = events s"
  using assms unfolding selectTarget_def Let_def
  by (auto split: if_splits)

lemma selectTarget_flee:
  assumes "selectTarget r e s = Inr (tgt, s1)" and "aiState (store s r) = Flee"
  shows "tgt \<noteq> None"
    and "heading (store s1 a) = heading (store s a)"
    and "maxVelocity (store s1 a) = maxVelocity (store s a)"
    and "subsystems (store s1 a) = subsystems (store s a)"
    and "velocity (store s1 r) = maxVelocity (store s r) * e"
    and "events s1 = events s"
  using assms unfolding selectTarget_def Let_def
  by (auto split: if_splits)

lemma random_simps [simp]:
  "store (snd (random s)) = store s" "playerShip (snd (random s)) = playerShip s"
  "events (snd (random s)) = events s" "rand (snd (random s)) = rand s"
  "fst (random s) = rand s (randPos s)" "phaserBeams (snd (random s)) = phaserBeams s"
  by (simp_all add: random_def)

lemma selectTarget_attack:
  assumes run: "selectTarget r e s = Inr (tgt, s1)" and st: "aiState (store s r) = Attack"
  shows "tgt \<noteq> None \<longleftrightarrow> target (store s r) = Some ''player''"
    and "heading (store s1 a) = heading (store s a)"
    and "maxVelocity (store s1 a) = maxVelocity (store s a)"
    and "r \<noteq> playerShip s \<Longrightarrow> subsystems (store s1 r) = subsystems (store s r)"
    and "velocity (store s1 r) =
           (if target (store s r) = Some ''player'' then maxVelocity (store s r) * e
            else velocity (store s r))"
    and "damagedShips (events s1) = damagedShips (events s) \<or>
         (distToPlayer r s < 400 \<and> 0 < getSystemEffectiveness (store s r) weapons \<and>
          damagedShips (events s1) = damagedShips (events s) @
            [(playerShip s, 10 * getSystemEffectiveness (store s r) weapons)])"
proof -
  let ?v = "maxVelocity (store s r) * e"
  let ?s1 = "setVelocity r ?v s"
  let ?s2 = "snd (random ?s1)"
  have d2: "distToPlayer r ?s2 = distToPlayer r s"
    and w2: "getSystemEffectiveness (store ?s2 r) weapons
               = getSystemEffectiveness (store s r) weapons"
    by (simp_all add: distToPlayer_def getSystemEffectiveness_def)
  from run st consider
      (none) "target (store s r) \<noteq> Some ''player''" "tgt = None" "s1 = s"
    | (far) "target (store s r) = Some ''player''" "tgt \<noteq> None" "s1 = ?s1"
    | (calm) "target (store s r) = Some ''player''" "tgt \<noteq> None" "s1 = ?s2"
    | (fire) "target (store s r) = Some ''player''" "tgt \<noteq> None"
        "npcFireAtPlayer r ?s2 = Inr s1"
    unfolding selectTarget_def Let_def
    by (auto simp: split_beta split: if_splits sum.splits)
  then have "(tgt \<noteq> None \<longleftrightarrow> target (store s r) = Some ''player'') \<and>
     heading (store s1 a) = heading (store s a) \<and>
     maxVelocity (store s1 a) = maxVelocity (store s a) \<and>
     (r \<noteq> playerShip s \<longrightarrow> subsystems (store s1 r) = subsystems (store s r)) \<and>
     velocity (store s1 r) =
           (if target (store s r) = Some ''player'' then ?v else velocity (store s r)) \<and>
     (damagedShips (events s1) = damagedShips (events s) \<or>
         (distToPlayer r s < 400 \<and> 0 < getSystemEffectiveness (store s r) weapons \<and>
          damagedShips (events s1) = damagedShips (events s) @
            [(playerShip s, 10 * getSystemEffectiveness (store s r) weapons)]))"
  proof cases
    case none
    then show ?thesis by simp
  next
    case far
    then show ?thesis by simp
  next
    case calm
    then show ?thesis by simp
  next
    case fire
    note fr = npcFireAtPlayer_frame [OF fire(3)]
    have sub: "r \<noteq> playerShip s \<longrightarrow> subsystems (store s1 r) = subsystems (store s r)"
      using fr(4) [of r] by simp
    have ev: "damagedShips (events s1) = damagedShips (events s) \<or>
         (distToPlayer r s < 400 \<and> 0 < getSystemEffectiveness (store s r) weapons \<and>
          damagedShips (events s1) = damagedShips (events s) @
            [(playerShip s, 10 * getSystemEffectiveness (store s r) weapons)])"
    proof (cases "0 < getSystemEffectiveness (store s r) weapons \<and> distToPlayer r s < 400")
      case True
      then have "0 < getSystemEffectiveness (store ?s2 r) weapons"
        and "distToPlayer r ?s2 < 400" by (simp_all only: d2 w2)
      from npcFireAtPlayer_fires(1) [OF this fire(3)] True show ?thesis
        by (simp add: w2)
    next
      case False
      then have "getSystemEffectiveness (store ?s2 r) weapons \<le> 0 \<or>
                 \<not> distToPlayer r ?s2 < 400" unfolding d2 w2 by auto
      from npcFireAtPlayer_idle [OF this] fire(3) have "s1 = ?s2" by simp
      then show ?thesis by simp
    qed
    from fire(1,2) fr(1) [of a] fr(2) [of r] fr(3) [of a] sub ev show ?thesis by simp
  qed
  then show "tgt \<noteq> None \<longleftrightarrow> target (store s r) = Some ''player''"
    and "heading (store s1 a) = heading (store s a)"
    and "maxVelocity (store s1 a) = maxVelocity (store s a)"
    and "r \<noteq> playerShip s \<Longrightarrow> subsystems (store s1 r) = subsystems (store s r)"
    and "velocity (store s1 r) =
           (if target (store s r) = Some ''player'' then maxVelocity (store s r) * e
            else velocity (store s r))"
    and "damagedShips (events s1) = damagedShips (events s) \<or>
         (distToPlayer r s < 400 \<and> 0 < getSystemEffectiveness (store s r) weapons \<and>
          damagedShips (events s1) = damagedShips (events s) @
            [(playerShip s, 10 * getSystemEffectiveness (store s r) weapons)])"
    by blast+
qed

lemma selectTarget_heading:
  assumes "selectTarget r e s = Inr (tgt, s1)"
  shows "heading (store s1 a) = heading (store s a)"
    and "tgt \<noteq> None \<longleftrightarrow> hasTargetPoint (store s r)"
proof -
  have "heading (store s1 a) = heading (store s a) \<and>
        (tgt \<noteq> None \<longleftrightarrow> hasTargetPoint (store s r))"
  proof (cases "aiState (store s r)")
    case Patrol
    from selectTarget_patrol(1,2) [OF assms Patrol] Patrol show ?thesis
      by (simp add: hasTargetPoint_def)
  next
    case Approach
    from selectTarget_approach(1,2) [OF assms Approach] Approach show ?thesis
      by (simp add: hasTargetPoint_def)
  next
    case Attack
    from selectTarget_attack(1,2) [OF assms Attack] Attack show ?thesis
      by (simp add: hasTargetPoint_def)
  next
    case Flee
    from selectTarget_flee(1,2) [OF assms Flee] Flee show ?thesis
      by (simp add: hasTargetPoint_def)
  qed
  then show "heading (store s1 a) = heading (store s a)"
    and "tgt \<noteq> None \<longleftrightarrow> hasTargetPoint (store s r)" by blast+
qed

lemma turnTowards_heading:
  "tgt \<noteq> None \<Longrightarrow> 0 \<le> heading (store (turnTowards r tgt e s) r)"
  "tgt \<noteq> None \<Longrightarrow> heading (store (turnTowards r tgt e s) r) < 360"
  "turnTowards r None e s = s"
  by (auto simp: turnTowards_def Let_def heading_loops_range split: option.splits prod.splits)

lemma applyMovement_simps [simp]:
  "heading (store (applyMovement r s) a) = heading (store s a)"
  "velocity (store (applyMovement r s) a) = velocity (store s a)"
  "maxVelocity (store (applyMovement r s) a) = maxVelocity (store s a)"
  "subsystems (store (applyMovement r s) a) = subsystems (store s a)"
  "events (applyMovement r s) = events s"
  by (simp_all add: applyMovement_def Let_def)

lemma turnTowards_simps [simp]:
  "velocity (store (turnTowards r tgt e s) a) = velocity (store s a)"
  "maxVelocity (store (turnTowards r tgt e s) a) = maxVelocity (store s a)"
  "subsystems (store (turnTowards r tgt e s) a) = subsystems (store s a)"
  "events (turnTowards r tgt e s) = events s"
  by (simp_all add: turnTowards_def Let_def split: option.splits prod.splits)

lemma moveNPCShip_Inr:
  assumes "moveNPCShip r s = Inr s'"
  obtains tgt s1 where
    "selectTarget r (getSystemEffectiveness (store s r) engines) s = Inr (tgt, s1)"
    and "s' = applyMovement r
                (turnTowards r tgt (getSystemEffectiveness (store s r) engines) s1)"
  using assms by (auto simp: moveNPCShip_def Let_def split: sum.splits)

lemma selectTarget_total:
  assumes "rand_ok s" and "routeOk (store s r)"
  shows "\<exists>tgt s1. selectTarget r e s = Inr (tgt, s1)"
proof (cases "aiState (store s r)")
  case Patrol
  with assms(2) show ?thesis
    by (auto simp: selectTarget_def routeOk_def Let_def split: prod.splits)
next
  case Approach
  then show ?thesis by (simp add: selectTarget_def Let_def)
next
  case Attack
  let ?s2 = "snd (random (setVelocity r (maxVelocity (store s r) * e) s))"
  have "rand_ok ?s2" using assms(1) by (simp add: rand_ok_def)
  from npcFireAtPlayer_total [OF this] obtain s3 where "npcFireAtPlayer r ?s2 = Inr s3"
    by blast
  with Attack show ?thesis
    by (simp add: selectTarget_def Let_def split_beta)
next
  case Flee
  then show ?thesis by (simp add: selectTarget_def Let_def)
qed

lemma moveNPCShip_total:
  assumes "rand_ok s" and "routeOk (store s r)"
  shows "\<exists>s'. moveNPCShip r s = Inr s'"
proof -
  from selectTarget_total [OF assms]
  obtain tgt s1 where
    "selectTarget r (getSystemEffectiveness (store s r) engines) s = Inr (tgt, s1)"
    by blast
  then show ?thesis by (simp add: moveNPCShip_def Let_def)
qed

text \<open>
  C6, as amended.  After \<open>setHeading\<close> and after \<open>turn\<close>, for every argument (negative
  values and multiples of 360 included), the player's heading is in \<open>[0, 360)\<close>.
  \<open>moveNPCShip\<close> returns for a well-formed random stream and a patrol index inside
  the route, and afterwards the ship's heading is in \<open>[0, 360)\<close> whenever the AI state
  gave a point to steer to.  A ship without such a point is not steered: its heading
  is exactly what it was, in range or not.
\<close>

theorem C6_heading_range:
  "0 \<le> heading (store (setHeading h s) (playerShip (setHeading h s))) \<and>
   heading (store (setHeading h s) (playerShip (setHeading h s))) < 360 \<and>
   0 \<le> heading (store (turn d s) (playerShip (turn d s))) \<and>
   heading (store (turn d s) (playerShip (turn d s))) < 360 \<and>
   (rand_ok s \<and> routeOk (store s r) \<longrightarrow> (\<exists>s'. moveNPCShip r s = Inr s')) \<and>
   (moveNPCShip r s = Inr s' \<and>
    (hasTargetPoint (store s r) \<or> 0 \<le> heading (store s r) \<and> heading (store s r) < 360) \<longrightarrow>
      0 \<le> heading (store s' r) \<and> heading (store s' r) < 360) \<and>
   (moveNPCShip r s = Inr s' \<and> \<not> hasTargetPoint (store s r) \<longrightarrow>
      heading (store s' r) = heading (store s r))"
proof (intro conjI impI)
  show "0 \<le> heading (store (setHeading h s) (playerShip (setHeading h s)))"
    and "heading (store (setHeading h s) (playerShip (setHeading h s))) < 360"
    by (simp_all add: setHeading_def Let_def normalise_range)
  show "0 \<le> heading (store (turn d s) (playerShip (turn d s)))"
    and "heading (store (turn d s) (playerShip (turn d s))) < 360"
    by (simp_all add: turn_def Let_def normalise_range)
  show "\<exists>s'. moveNPCShip r s = Inr s'" if "rand_ok s \<and> routeOk (store s r)"
    using that moveNPCShip_total by blast
next
  assume a: "moveNPCShip r s = Inr s' \<and>
    (hasTargetPoint (store s r) \<or> 0 \<le> heading (store s r) \<and> heading (store s r) < 360)"
  then obtain tgt s1 where
    sel: "selectTarget r (getSystemEffectiveness (store s r) engines) s = Inr (tgt, s1)"
    and s': "s' = applyMovement r
                (turnTowards r tgt (getSystemEffectiveness (store s r) engines) s1)"
    by (blast elim: moveNPCShip_Inr)
  note st = selectTarget_heading [OF sel]
  have "0 \<le> heading (store s' r) \<and> heading (store s' r) < 360"
  proof (cases "tgt = None")
    case True
    with st(2) a have "0 \<le> heading (store s r) \<and> heading (store s r) < 360" by blast
    with True st(1) [of r] show ?thesis unfolding s' by (simp add: turnTowards_heading)
  next
    case False
    then show ?thesis unfolding s' by (simp add: turnTowards_heading)
  qed
  then show "0 \<le> heading (store s' r)" and "heading (store s' r) < 360" by blast+
next
  assume a: "moveNPCShip r s = Inr s' \<and> \<not> hasTargetPoint (store s r)"
  then obtain tgt s1 where
    sel: "selectTarget r (getSystemEffectiveness (store s r) engines) s = Inr (tgt, s1)"
    and s': "s' = applyMovement r
                (turnTowards r tgt (getSystemEffectiveness (store s r) engines) s1)"
    by (blast elim: moveNPCShip_Inr)
  note st = selectTarget_heading [OF sel]
  from st(2) a have "tgt = None" by blast
  with st(1) [of r] show "heading (store s' r) = heading (store s r)"
    unfolding s' by (simp add: turnTowards_heading)
qed

lemma moveNPCShip_no_route:
  assumes "aiState (store s r) = Patrol" and "patrolPoints (store s r) = []"
  shows "moveNPCShip r s = Inr (applyMovement r (setVelocity r 0 s))"
  using assms by (simp add: moveNPCShip_def selectTarget_def turnTowards_def Let_def)

lemma adrift_facts:
  "aiState (store (updateNPCAI (Suc 0) adrift) (Suc 0)) = Patrol"
  "patrolPoints (store (updateNPCAI (Suc 0) adrift) (Suc 0)) = []"
  "heading (store (updateNPCAI (Suc 0) adrift) (Suc 0)) = 400"
  by (simp_all add: adrift_def updateNPCAI_def addShip_def reset_def createShip_def Let_def)

text \<open>
  C6 as stated asks for a heading in \<open>[0, 360)\<close> for every NPC after its update of
  the tick.  A neutral ship without a patrol route that was created with heading 400
  gets no target point, so the normalising loops do not run: after \<open>updateNPCAI\<close>
  and \<open>moveNPCShip\<close> its heading is still 400.
\<close>

theorem C6_unsteered_heading_counterexample:
  "moveNPCShip (Suc 0) (updateNPCAI (Suc 0) adrift)
     = Inr (applyMovement (Suc 0) (setVelocity (Suc 0) 0 (updateNPCAI (Suc 0) adrift))) \<and>
   heading (store (applyMovement (Suc 0) (setVelocity (Suc 0) 0 (updateNPCAI (Suc 0) adrift)))
              (Suc 0)) = 400 \<and>
   \<not> (400 < (360::real))"
  using moveNPCShip_no_route [OF adrift_facts(1,2)] by (simp add: adrift_facts)

lemma engaged_simps:
  "rand (engaged rnd) = rnd" "playerShip (engaged rnd) = 0" "ships (engaged rnd) = [Suc 0]"
  "aiState (store (engaged rnd) (Suc 0)) = Attack"
  "target (store (engaged rnd) (Suc 0)) = Some ''player''"
  "heading (store (engaged rnd) 0) = 0"
  by (simp_all add: engaged_def updateNPCAI_def Let_def skirmish_simps skirmish_store
        hostile1_def createShip_def js_div_less_def)

lemma rand_ok_engaged: "rand_ok (engaged (steady (1/2)))"
  by (simp add: rand_ok_def engaged_simps steady_def)

theorem C6_heading_range_witness:
  "heading (store (setHeading (- 450) (engaged (steady (1/2)))) 0) = 270 \<and>
   heading (store (turn 720 (engaged (steady (1/2)))) 0) = 0 \<and>
   (\<exists>s'. moveNPCShip (Suc 0) (engaged (steady (1/2))) = Inr s' \<and>
         0 \<le> heading (store s' (Suc 0)) \<and> heading (store s' (Suc 0)) < 360) \<and>
   (\<exists>s'. moveNPCShip (Suc 0) (updateNPCAI (Suc 0) adrift) = Inr s' \<and>
         heading (store s' (Suc 0)) = 400)"
proof -
  let ?s = "engaged (steady (1/2))"
  let ?a = "updateNPCAI (Suc 0) adrift"
  obtain a' where drift: "moveNPCShip (Suc 0) ?a = Inr a'"
    using moveNPCShip_no_route [OF adrift_facts(1,2)] by blast
  have "\<not> hasTargetPoint (store ?a (Suc 0))"
    by (simp add: hasTargetPoint_def adrift_facts)
  with C6_heading_range [of "- 450" ?a 720 "Suc 0" a'] drift
  have "heading (store a' (Suc 0)) = 400" by (simp add: adrift_facts)
  with drift have unsteered: "\<exists>s'. moveNPCShip (Suc 0) ?a = Inr s' \<and>
      heading (store s' (Suc 0)) = 400" by blast
  have ok: "rand_ok ?s \<and> routeOk (store ?s (Suc 0))"
    by (simp add: rand_ok_engaged routeOk_def engaged_simps)
  have tp: "hasTargetPoint (store ?s (Suc 0))"
    by (simp add: hasTargetPoint_def engaged_simps)
  from C6_heading_range [of "- 450" ?s 720 "Suc 0"] ok
  obtain s' where run: "moveNPCShip (Suc 0) ?s = Inr s'" by blast
  from C6_heading_range [of "- 450" ?s 720 "Suc 0" s'] run tp
  have "0 \<le> heading (store s' (Suc 0)) \<and> heading (store s' (Suc 0)) < 360" by blast
  moreover have "heading (store (setHeading (- 450) ?s) 0) = 270"
    by (simp add: setHeading_def js_rem_def Let_def engaged_simps)
  moreover have "heading (store (turn 720 ?s) 0) = 0"
    by (simp add: turn_def js_rem_def Let_def engaged_simps)
  ultimately show ?thesis using run unsteered by blast
qed

section \<open>Weapons\<close>








lemma skirmish_phaser_facts:
  "hp (playerWeapons (skirmish rnd)) = 100" "sys_power (playerWeapons (skirmish rnd)) = 50"
  "lockedTarget (Some ''h1'') (skirmish rnd) = Some (Suc 0)"
  "phaserDistance (Suc 0) (skirmish rnd) = 300"
  by (simp_all add: playerWeapons_def lockedTarget_def phaserDistance_def getShip_def js_or_def
        skirmish_simps skirmish_store hostile1_def createShip_def createSubsystems_def)


section \<open>Commands that fail\<close>

lemma fireWeapon_phaser_rejected:
  assumes "hp (playerWeapons s) \<le> 0 \<or> sys_power (playerWeapons s) \<le> 0 \<or>
           lockedTarget tid s = None \<or>
           (\<exists>tgt. lockedTarget tid s = Some tgt \<and> phaserDistance tgt s > 500)"
  shows "\<exists>msg\<in>{''Weapons offline!'', ''No target locked!'', ''Target out of phaser range!''}.
           fireWeapon ''phaser'' tid s = Inr (False, addCommsMessage ''SYSTEM'' msg AlertMsg s)"
  using assms
  unfolding fireWeapon_def playerWeapons_def lockedTarget_def phaserDistance_def Let_def
  by (auto split: option.splits)

text \<open>
  C7, as amended.  When the player's weapons have hp or power at most 0, or no ship
  is locked, or the locked ship is more than 500 away, a phaser command returns
  failure before any effect on the world: no beam is created, \<open>damageShip\<close> is not
  called, and ships, projectiles, target, alert level and random stream are
  unchanged.  The one change is the rejection message that \<open>addCommsMessage\<close> puts
  into the comms log, with its \<open>commsMessage\<close> event.
\<close>

theorem C7_phaser_rejected:
  assumes "hp (playerWeapons s) \<le> 0 \<or> sys_power (playerWeapons s) \<le> 0 \<or>
           lockedTarget tid s = None \<or>
           (\<exists>tgt. lockedTarget tid s = Some tgt \<and> phaserDistance tgt s > 500)"
  shows "\<exists>msg s'.
           msg \<in> {''Weapons offline!'', ''No target locked!'', ''Target out of phaser range!''} \<and>
           fireWeapon ''phaser'' tid s = Inr (False, s') \<and>
           s' = addCommsMessage ''SYSTEM'' msg AlertMsg s \<and>
           phaserBeams s' = phaserBeams s \<and> store s' = store s \<and> ships s' = ships s \<and>
           projectiles s' = projectiles s \<and> currentTarget s' = currentTarget s \<and>
           alertLevel s' = alertLevel s \<and> randPos s' = randPos s \<and>
           damagedShips (events s') = damagedShips (events s) \<and>
           destroyedShips (events s') = destroyedShips (events s) \<and>
           events s' = events s @ [CommsMessage \<lparr>sender = ''SYSTEM'', message = msg,
                         msg_type = AlertMsg, timestamp = gameTime s, msg_read = False\<rparr>]"
proof -
  from fireWeapon_phaser_rejected [OF assms]
  obtain msg where
    t: "msg \<in> {''Weapons offline!'', ''No target locked!'', ''Target out of phaser range!''}"
    and f: "fireWeapon ''phaser'' tid s = Inr (False, addCommsMessage ''SYSTEM'' msg AlertMsg s)"
    by blast
  show ?thesis
    apply (rule exI [of _ msg])
    apply (rule exI [of _ "addCommsMessage ''SYSTEM'' msg AlertMsg s"])
    using t f by (simp add: events_addCommsMessage)
qed

lemma contact_phaser_facts:
  "hp (playerWeapons (contact d l)) = 100" "sys_power (playerWeapons (contact d l)) = 50"
  "lockedTarget (Some ''h1'') (contact d l) = Some (Suc 0)"
  "phaserDistance (Suc 0) (contact d l) = \<bar>d\<bar>"
  "commsLog (contact d l) = []" "gameTime (contact d l) = 0"
  by (simp_all add: playerWeapons_def lockedTarget_def phaserDistance_def getShip_def js_or_def
        contact_def addShip_def reset_def hostile1_def createShip_def createSubsystems_def Let_def)

lemma disarmed_facts:
  "sys_power (playerWeapons disarmed) = 0" "phaserBeams disarmed = []"
  by (simp_all add: disarmed_def setPower_def playerWeapons_def Let_def get_system_def
        set_system_def skirmish_simps emit_def)

theorem C7_phaser_rejected_witness:
  "fireWeapon ''phaser'' (Some ''h1'') (contact 600 Normal)
     = Inr (False, addCommsMessage ''SYSTEM'' ''Target out of phaser range!'' AlertMsg
                     (contact 600 Normal)) \<and>
   phaserBeams (addCommsMessage ''SYSTEM'' ''Target out of phaser range!'' AlertMsg
                  (contact 600 Normal)) = phaserBeams (contact 600 Normal) \<and>
   (\<exists>s'. fireWeapon ''phaser'' None (skirmish (steady 0)) = Inr (False, s') \<and>
         phaserBeams s' = [] \<and> damagedShips (events s') = [] \<and>
         store s' = store (skirmish (steady 0))) \<and>
   (\<exists>s'. fireWeapon ''phaser'' (Some ''h1'') disarmed = Inr (False, s') \<and>
         phaserBeams s' = [] \<and> damagedShips (events s') = damagedShips (events disarmed) \<and>
         store s' = store disarmed)"
proof -
  have "\<exists>tgt. lockedTarget (Some ''h1'') (contact 600 Normal) = Some tgt \<and>
          phaserDistance tgt (contact 600 Normal) > 500"
    by (simp add: contact_phaser_facts)
  then have "hp (playerWeapons (contact 600 Normal)) \<le> 0 \<or>
      sys_power (playerWeapons (contact 600 Normal)) \<le> 0 \<or>
      lockedTarget (Some ''h1'') (contact 600 Normal) = None \<or>
      (\<exists>tgt. lockedTarget (Some ''h1'') (contact 600 Normal) = Some tgt \<and>
          phaserDistance tgt (contact 600 Normal) > 500)" by blast
  from C7_phaser_rejected [OF this]
  obtain msg s' where
    f: "fireWeapon ''phaser'' (Some ''h1'') (contact 600 Normal) = Inr (False, s')"
    and s': "s' = addCommsMessage ''SYSTEM'' msg AlertMsg (contact 600 Normal)"
    and b: "phaserBeams s' = phaserBeams (contact 600 Normal)"
    by blast
  have e: "fireWeapon ''phaser'' (Some ''h1'') (contact 600 Normal)
     = Inr (False, addCommsMessage ''SYSTEM'' ''Target out of phaser range!'' AlertMsg
                     (contact 600 Normal))"
    unfolding fireWeapon_def Let_def
    by (simp add: contact_phaser_facts [unfolded playerWeapons_def lockedTarget_def phaserDistance_def])
  from f e have "s' = addCommsMessage ''SYSTEM'' ''Target out of phaser range!'' AlertMsg
                     (contact 600 Normal)" by simp
  with e b have 1: "fireWeapon ''phaser'' (Some ''h1'') (contact 600 Normal)
     = Inr (False, addCommsMessage ''SYSTEM'' ''Target out of phaser range!'' AlertMsg
                     (contact 600 Normal)) \<and>
   phaserBeams (addCommsMessage ''SYSTEM'' ''Target out of phaser range!'' AlertMsg
                  (contact 600 Normal)) = phaserBeams (contact 600 Normal)" by simp
  have "lockedTarget None (skirmish (steady 0)) = None"
    by (simp add: lockedTarget_def js_or_def getShip_def skirmish_simps)
  then have "hp (playerWeapons (skirmish (steady 0))) \<le> 0 \<or>
      sys_power (playerWeapons (skirmish (steady 0))) \<le> 0 \<or>
      lockedTarget None (skirmish (steady 0)) = None \<or>
      (\<exists>tgt. lockedTarget None (skirmish (steady 0)) = Some tgt \<and>
          phaserDistance tgt (skirmish (steady 0)) > 500)" by blast
  from C7_phaser_rejected [OF this]
  have 2: "\<exists>s'. fireWeapon ''phaser'' None (skirmish (steady 0)) = Inr (False, s') \<and>
         phaserBeams s' = [] \<and> damagedShips (events s') = [] \<and>
         store s' = store (skirmish (steady 0))"
    by (auto simp: skirmish_simps)
  have "hp (playerWeapons disarmed) \<le> 0 \<or> sys_power (playerWeapons disarmed) \<le> 0 \<or>
      lockedTarget (Some ''h1'') disarmed = None \<or>
      (\<exists>tgt. lockedTarget (Some ''h1'') disarmed = Some tgt \<and>
          phaserDistance tgt disarmed > 500)" by (simp add: disarmed_facts)
  from C7_phaser_rejected [OF this]
  have 3: "\<exists>s'. fireWeapon ''phaser'' (Some ''h1'') disarmed = Inr (False, s') \<and>
         phaserBeams s' = [] \<and> damagedShips (events s') = damagedShips (events disarmed) \<and>
         store s' = store disarmed"
    by (auto simp: disarmed_facts)
  from 1 2 3 show ?thesis by blast
qed

text \<open>
  C7 as stated asks for no state change at all.  A phaser fired at a ship 600 units
  away with full weapon stats fails, and the state it returns differs from the state
  before: the comms log has one more message.
\<close>

theorem C7_no_state_change_counterexample:
  "fireWeapon ''phaser'' (Some ''h1'') (contact 600 Normal) \<noteq> Inr (False, contact 600 Normal) \<and>
   fireWeapon ''phaser'' (Some ''h1'') (contact 600 Normal)
     = Inr (False, addCommsMessage ''SYSTEM'' ''Target out of phaser range!'' AlertMsg
                     (contact 600 Normal)) \<and>
   length (commsLog (addCommsMessage ''SYSTEM'' ''Target out of phaser range!'' AlertMsg
                       (contact 600 Normal))) = 1 \<and>
   length (commsLog (contact 600 Normal)) = 0"
proof -
  have e: "fireWeapon ''phaser'' (Some ''h1'') (contact 600 Normal)
     = Inr (False, addCommsMessage ''SYSTEM'' ''Target out of phaser range!'' AlertMsg
                     (contact 600 Normal))"
    unfolding fireWeapon_def Let_def
    by (simp add: contact_phaser_facts [unfolded playerWeapons_def lockedTarget_def phaserDistance_def])
  have l1: "length (commsLog (addCommsMessage ''SYSTEM'' ''Target out of phaser range!'' AlertMsg
                       (contact 600 Normal))) = 1"
    by (simp add: addCommsMessage_def Let_def contact_phaser_facts emit_def)
  have l0: "length (commsLog (contact 600 Normal)) = 0"
    by (simp add: contact_phaser_facts)
  have "addCommsMessage ''SYSTEM'' ''Target out of phaser range!'' AlertMsg (contact 600 Normal)
          \<noteq> contact 600 Normal"
    using l1 l0 by auto
  with e l1 l0 show ?thesis by simp
qed

section \<open>Unknown names\<close>

lemma setPower_unknown:
  "get_system (subsystems (store s (playerShip s))) systemName = Undefined \<Longrightarrow>
   setPower systemName pwr s = s"
  by (simp add: setPower_def Let_def)

lemma fireWeapon_unknown_kind:
  "ty \<noteq> ''phaser'' \<Longrightarrow> ty \<noteq> ''torpedo'' \<Longrightarrow>
   0 < hp (playerWeapons s) \<Longrightarrow> 0 < sys_power (playerWeapons s) \<Longrightarrow>
   fireWeapon ty tid s = Inr (False, s)"
  by (simp add: fireWeapon_def playerWeapons_def Let_def not_le)

lemma repairSubsystem_unknown:
  "get_system (subsystems (store s (playerShip s))) systemName = Undefined \<Longrightarrow>
   repairCooldowns s systemName = None \<Longrightarrow>
   repairSubsystem systemName s = Inl TypeError"
  by (simp add: repairSubsystem_def Let_def)

text \<open>
  C8.  An unknown subsystem name or weapon kind should degrade to a no-op.
  \<open>setPower\<close> guards the lookup and \<open>fireWeapon\<close> falls through to \<open>return false\<close>;
  \<open>repairSubsystem\<close> reads \<open>hp\<close> of the missing subsystem without a guard, so the
  call throws a \<open>TypeError\<close>.
\<close>

lemma inherited_names:
  "get_system subs ''constructor'' = Inherited" "get_system subs ''toString'' = Inherited"
  by (simp_all add: get_system_def objectPrototypeNames_def)

lemma setPower_inherited:
  "get_system (subsystems (store s (playerShip s))) systemName = Inherited \<Longrightarrow>
   setPower systemName pwr s = emit (PowerChanged systemName (max 0 (min 100 pwr))) s"
  by (simp add: setPower_def Let_def)

lemma repairSubsystem_inherited:
  "get_system (subsystems (store s (playerShip s))) systemName = Inherited \<Longrightarrow>
   repairCooldowns s systemName = None \<Longrightarrow>
   \<exists>s'. repairSubsystem systemName s = Inr (True, s') \<and> store s' = store s"
  by (simp add: repairSubsystem_def Let_def)

theorem C8_unknown_subsystem_repair_throws:
  "repairSubsystem ''warp'' (skirmish (steady 0)) = Inl TypeError \<and>
   setPower ''warp'' 50 (skirmish (steady 0)) = skirmish (steady 0) \<and>
   fireWeapon ''laser'' None (skirmish (steady 0)) = Inr (False, skirmish (steady 0))"
proof (intro conjI)
  have g: "get_system (subsystems (store (skirmish (steady 0)) (playerShip (skirmish (steady 0)))))
             ''warp'' = Undefined"
    by (simp add: get_system_def objectPrototypeNames_def)
  have c: "repairCooldowns (skirmish (steady 0)) ''warp'' = None"
    by (simp add: skirmish_def addShip_def reset_def Let_def)
  show "repairSubsystem ''warp'' (skirmish (steady 0)) = Inl TypeError"
    using g c by (rule repairSubsystem_unknown)
  show "setPower ''warp'' 50 (skirmish (steady 0)) = skirmish (steady 0)"
    using g by (rule setPower_unknown)
  show "fireWeapon ''laser'' None (skirmish (steady 0)) = Inr (False, skirmish (steady 0))"
    by (rule fireWeapon_unknown_kind) (simp_all add: skirmish_phaser_facts)
qed

section \<open>Velocity\<close>

lemma engineEffectiveness_eq: "getSystemEffectiveness shp engines = engineEffectivenessOf shp"
  by (simp add: getSystemEffectiveness_def engineEffectivenessOf_def Let_def)

lemma engineEffectivenessOf_cong:
  "subsystems shp' = subsystems shp \<Longrightarrow> engineEffectivenessOf shp' = engineEffectivenessOf shp"
  by (simp add: engineEffectivenessOf_def)

lemma setThrottle_bound:
  assumes "percent \<le> 100" and "0 \<le> maxVelocity (store s (playerShip s))"
    and "0 \<le> engineEffectivenessOf (store s (playerShip s))"
  shows "velocity (store (setThrottle percent s) (playerShip s))
           \<le> maxVelocity (store (setThrottle percent s) (playerShip s))
               * engineEffectivenessOf (store (setThrottle percent s) (playerShip s))"
proof -
  let ?p = "store s (playerShip s)"
  have "0 \<le> maxVelocity ?p * engineEffectivenessOf ?p" using assms(2,3) by simp
  moreover have "percent / 100 \<le> 1" using assms(1) by simp
  ultimately have "(percent / 100) * (maxVelocity ?p * engineEffectivenessOf ?p)
                     \<le> 1 * (maxVelocity ?p * engineEffectivenessOf ?p)"
    by (rule mult_right_mono [rotated])
  then show ?thesis
    by (simp add: setThrottle_def Let_def engineEffectivenessOf_def mult.assoc)
qed

lemma setPower_velocity: "velocity (store (setPower systemName pwr s) a) = velocity (store s a)"
  by (simp add: setPower_def Let_def split: property.splits)

lemma selectTarget_velocity:
  assumes sel: "selectTarget r e s = Inr (tgt, s1)" and np: "r \<noteq> playerShip s"
    and mv: "0 \<le> maxVelocity (store s r)" and ee: "0 \<le> e"
    and pre: "speedSelected (store s r) \<or> velocity (store s r) \<le> maxVelocity (store s r) * e"
  shows "velocity (store s1 r) \<le> maxVelocity (store s r) * e"
    and "maxVelocity (store s1 r) = maxVelocity (store s r)"
    and "subsystems (store s1 r) = subsystems (store s r)"
proof -
  have nn: "0 \<le> maxVelocity (store s r) * e" using mv ee by simp
  then have half: "maxVelocity (store s r) * 0.5 * e \<le> maxVelocity (store s r) * e"
    and most: "maxVelocity (store s r) * 0.8 * e \<le> maxVelocity (store s r) * e"
    by (simp_all add: algebra_simps)
  have "velocity (store s1 r) \<le> maxVelocity (store s r) * e \<and>
        maxVelocity (store s1 r) = maxVelocity (store s r) \<and>
        subsystems (store s1 r) = subsystems (store s r)"
  proof (cases "aiState (store s r)")
    case Patrol
    from selectTarget_patrol(3,4,5) [OF sel Patrol] nn half show ?thesis
      by (auto simp: algebra_simps)
  next
    case Approach
    from selectTarget_approach(3,4,5) [OF sel Approach] pre Approach most show ?thesis
      by (auto simp: speedSelected_def algebra_simps)
  next
    case Attack
    from selectTarget_attack(3,4,5) [OF sel Attack] np pre Attack show ?thesis
      by (auto simp: speedSelected_def algebra_simps)
  next
    case Flee
    from selectTarget_flee(3,4,5) [OF sel Flee] show ?thesis by simp
  qed
  then show "velocity (store s1 r) \<le> maxVelocity (store s r) * e"
    and "maxVelocity (store s1 r) = maxVelocity (store s r)"
    and "subsystems (store s1 r) = subsystems (store s r)" by blast+
qed

lemma moveNPCShip_bound:
  assumes run: "moveNPCShip r s = Inr s'" and np: "r \<noteq> playerShip s"
    and mv: "0 \<le> maxVelocity (store s r)" and ee: "0 \<le> engineEffectivenessOf (store s r)"
    and pre: "speedSelected (store s r) \<or>
              velocity (store s r) \<le> maxVelocity (store s r) * engineEffectivenessOf (store s r)"
  shows "velocity (store s' r) \<le> maxVelocity (store s' r) * engineEffectivenessOf (store s' r)"
proof -
  let ?e = "getSystemEffectiveness (store s r) engines"
  from run obtain tgt s1 where sel: "selectTarget r ?e s = Inr (tgt, s1)"
    and s': "s' = applyMovement r (turnTowards r tgt ?e s1)"
    by (rule moveNPCShip_Inr)
  have e: "?e = engineEffectivenessOf (store s r)" by (rule engineEffectiveness_eq)
  note sv = selectTarget_velocity [OF sel np mv ee [folded e] pre [folded e]]
  have "subsystems (store s' r) = subsystems (store s r)" unfolding s' using sv(3) by simp
  then have "engineEffectivenessOf (store s' r) = engineEffectivenessOf (store s r)"
    by (rule engineEffectivenessOf_cong)
  moreover have "velocity (store s' r) = velocity (store s1 r)"
    and "maxVelocity (store s' r) = maxVelocity (store s r)"
    unfolding s' using sv(2) by simp_all
  ultimately show ?thesis using sv(1) e by simp
qed

text \<open>
  C9, as amended.  Right after a throttle command with a percentage of at most 100,
  and right after an NPC movement update (of a ship other than the player whose AI
  state selects a speed, or whose velocity was within the bound before), the ship's
  velocity is at most \<open>maxVelocity\<close> times its engine effectiveness, for a
  non-negative \<open>maxVelocity\<close> and effectiveness.  \<open>setPower\<close> leaves every velocity as
  it is, so the bound is not restored when engine power changes.
\<close>

theorem C9_velocity_bound:
  "(percent \<le> 100 \<and> 0 \<le> maxVelocity (store s (playerShip s)) \<and>
    0 \<le> engineEffectivenessOf (store s (playerShip s)) \<longrightarrow>
      velocity (store (setThrottle percent s) (playerShip s))
        \<le> maxVelocity (store (setThrottle percent s) (playerShip s))
            * engineEffectivenessOf (store (setThrottle percent s) (playerShip s))) \<and>
   (moveNPCShip r s = Inr s' \<and> r \<noteq> playerShip s \<and>
    0 \<le> maxVelocity (store s r) \<and> 0 \<le> engineEffectivenessOf (store s r) \<and>
    (speedSelected (store s r) \<or>
     velocity (store s r) \<le> maxVelocity (store s r) * engineEffectivenessOf (store s r)) \<longrightarrow>
      velocity (store s' r) \<le> maxVelocity (store s' r) * engineEffectivenessOf (store s' r)) \<and>
   velocity (store (setPower systemName pwr s) a) = velocity (store s a)"
  using setThrottle_bound [of percent s] moveNPCShip_bound [of r s s']
  by (simp add: setPower_velocity)

text \<open>
  C9 as stated asks for the bound at every point between operations.  Full throttle
  at engine power 50 stores velocity 4; after \<open>setPower\<close> lowers engine power to 10
  the bound is 0.8 and the stored velocity is still 4.
\<close>

theorem C9_stale_velocity_counterexample:
  "velocity (store starved (playerShip starved)) = 4 \<and>
   maxVelocity (store starved (playerShip starved))
     * engineEffectivenessOf (store starved (playerShip starved)) = 4 / 5 \<and>
   maxVelocity (store starved (playerShip starved))
     * engineEffectivenessOf (store starved (playerShip starved))
     < velocity (store starved (playerShip starved))"
  by (simp add: starved_def setPower_def setThrottle_def engineEffectivenessOf_def Let_def
        get_system_def set_system_def skirmish_simps skirmish_store createShip_def
        createSubsystems_def emit_def)

lemma engaged_velocity_facts:
  "maxVelocity (store (engaged rnd) (Suc 0)) = 7"
  "engineEffectivenessOf (store (engaged rnd) (Suc 0)) = 1/2"
  by (simp_all add: engaged_def updateNPCAI_def Let_def skirmish_simps skirmish_store
        hostile1_def createShip_def js_div_less_def engineEffectivenessOf_def
        createSubsystems_def)

lemma skirmish_velocity_facts:
  "maxVelocity (store (skirmish rnd) 0) = 8"
  "engineEffectivenessOf (store (skirmish rnd) 0) = 1/2"
  by (simp_all add: skirmish_store createShip_def engineEffectivenessOf_def createSubsystems_def)

theorem C9_velocity_bound_witness:
  "velocity (store (setThrottle 100 (skirmish (steady 0))) 0)
     \<le> maxVelocity (store (setThrottle 100 (skirmish (steady 0))) 0)
         * engineEffectivenessOf (store (setThrottle 100 (skirmish (steady 0))) 0) \<and>
   (\<exists>s'. moveNPCShip (Suc 0) (engaged (steady (1/2))) = Inr s' \<and>
         velocity (store s' (Suc 0))
           \<le> maxVelocity (store s' (Suc 0)) * engineEffectivenessOf (store s' (Suc 0)))"
proof -
  let ?k = "skirmish (steady 0)"
  let ?e = "engaged (steady (1/2))"
  have 1: "velocity (store (setThrottle 100 ?k) 0)
     \<le> maxVelocity (store (setThrottle 100 ?k) 0)
         * engineEffectivenessOf (store (setThrottle 100 ?k) 0)"
    using C9_velocity_bound [of 100 ?k, THEN conjunct1]
    by (simp add: skirmish_simps skirmish_velocity_facts)
  obtain s' where run: "moveNPCShip (Suc 0) ?e = Inr s'"
    using moveNPCShip_total [OF rand_ok_engaged, of "Suc 0"]
    by (auto simp: routeOk_def engaged_simps)
  have "velocity (store s' (Suc 0))
           \<le> maxVelocity (store s' (Suc 0)) * engineEffectivenessOf (store s' (Suc 0))"
    using C9_velocity_bound [of _ ?e "Suc 0" s', THEN conjunct2, THEN conjunct1] run
    by (simp add: engaged_simps engaged_velocity_facts speedSelected_def)
  with 1 run show ?thesis by blast
qed

end
